theory Spec2Isabelle
  imports Main
begin

section \<open>JavaScript values and built-ins used by the task import\<close>

text \<open>
  A JavaScript string is modelled as a \<^typ>\<open>string\<close>: the list of its code units, for
  strings whose code units are below 256. A number is \<open>NaN\<close>, an infinity, or a finite
  number, of which the import reads and compares integers only; the sign of zero is not
  kept.
\<close>

datatype number = NaN | Num int | PosInf | NegInf

definition isWhiteSpace :: "char \<Rightarrow> bool" where
  \<comment> \<open>WhiteSpace and LineTerminator of ECMAScript below code unit 256:
      TAB, LF, VT, FF, CR, SP, NBSP.\<close>
  "isWhiteSpace c = ((of_char c :: nat) \<in> {9, 10, 11, 12, 13, 32, 160})"

definition trim :: "string \<Rightarrow> string" where
  \<comment> \<open>String.prototype.trim\<close>
  "trim s = rev (dropWhile isWhiteSpace (rev (dropWhile isWhiteSpace s)))"

definition isDigit :: "char \<Rightarrow> bool" where
  "isDigit c = (48 \<le> (of_char c :: nat) \<and> (of_char c :: nat) \<le> 57)"

fun digitsValue :: "int \<Rightarrow> string \<Rightarrow> int" where
  "digitsValue acc [] = acc"
| "digitsValue acc (c # cs) = digitsValue (10 * acc + (of_char c - 48)) cs"

function bitLength :: "int \<Rightarrow> nat" where
  \<comment> \<open>the number of binary digits of a natural number\<close>
  "bitLength n = (if n \<le> 0 then 0 else Suc (bitLength (n div 2)))"
  by pat_completeness auto

termination bitLength
  by (relation "measure nat") auto

declare bitLength.simps [simp del]

definition roundToDouble :: "int \<Rightarrow> number" where
  \<comment> \<open>the Number value of a natural number: the nearest double, with 53 binary digits
      kept and a tie going to the even neighbour; from 2 to the power 1024 on, Infinity\<close>
  "roundToDouble m =
     (if m < 2 ^ 53 then Num m
      else
        (let e = bitLength m - 53;
             q = m div 2 ^ e;
             r = m mod 2 ^ e;
             q' = (if 2 ^ e < 2 * r \<or> (2 * r = 2 ^ e \<and> odd q) then q + 1 else q)
         in if 2 ^ 1024 \<le> q' * 2 ^ e then PosInf else Num (q' * 2 ^ e)))"

definition negate :: "number \<Rightarrow> number" where
  "negate x = (case x of NaN \<Rightarrow> NaN | Num n \<Rightarrow> Num (- n) | PosInf \<Rightarrow> NegInf | NegInf \<Rightarrow> PosInf)"

definition parseInt :: "string \<Rightarrow> number" where
  \<comment> \<open>parseInt(s, 10): leading white space is skipped, then an optional sign, then the
      longest prefix of decimal digits, whose integer is rounded to a double; NaN when
      there is no digit.\<close>
  "parseInt s =
     (let t = dropWhile isWhiteSpace s;
          neg = (t \<noteq> [] \<and> hd t = CHR ''-'');
          u = (if t \<noteq> [] \<and> (hd t = CHR ''-'' \<or> hd t = CHR ''+'') then tl t else t);
          ds = takeWhile isDigit u
      in if ds = [] then NaN
         else if neg then negate (roundToDouble (digitsValue 0 ds))
         else roundToDouble (digitsValue 0 ds))"

datatype cell = CStr string | CNum number | CBool bool | CUndefined

definition toNumberCell :: "(string \<Rightarrow> number) \<Rightarrow> cell option \<Rightarrow> number" where
  \<comment> \<open>ToNumber of an array element; \<open>None\<close> is \<open>undefined\<close> (index out of range).
      ToNumber on the text of a string is the engine's: a parameter.\<close>
  "toNumberCell toNumber x =
     (case x of
        None \<Rightarrow> NaN
      | Some CUndefined \<Rightarrow> NaN
      | Some (CNum n) \<Rightarrow> n
      | Some (CBool b) \<Rightarrow> Num (if b then 1 else 0)
      | Some (CStr s) \<Rightarrow> toNumber s)"

definition leNum :: "number \<Rightarrow> number \<Rightarrow> bool" where
  \<comment> \<open>\<open>x <= y\<close> on numbers: false when either is NaN\<close>
  "leNum x y =
     (case x of
        NaN \<Rightarrow> False
      | NegInf \<Rightarrow> y \<noteq> NaN
      | PosInf \<Rightarrow> y = PosInf
      | Num a \<Rightarrow> (case y of NaN \<Rightarrow> False | NegInf \<Rightarrow> False | PosInf \<Rightarrow> True | Num b \<Rightarrow> a \<le> b))"

definition gtNum :: "number \<Rightarrow> int \<Rightarrow> bool" where
  \<comment> \<open>\<open>x > k\<close> for a finite \<open>k\<close>: false when \<open>x\<close> is NaN\<close>
  "gtNum x k = (case x of NaN \<Rightarrow> False | NegInf \<Rightarrow> False | PosInf \<Rightarrow> True | Num n \<Rightarrow> n > k)"

definition geNum :: "number \<Rightarrow> int \<Rightarrow> bool" where
  \<comment> \<open>\<open>x >= k\<close> for a finite \<open>k\<close>: false when \<open>x\<close> is NaN\<close>
  "geNum x k = (case x of NaN \<Rightarrow> False | NegInf \<Rightarrow> False | PosInf \<Rightarrow> True | Num n \<Rightarrow> n \<ge> k)"

definition elemAt :: "'a list \<Rightarrow> int \<Rightarrow> 'a option" where
  \<comment> \<open>\<open>xs[i]\<close> on an array: \<open>None\<close> is \<open>undefined\<close> (also for a negative index)\<close>
  "elemAt xs i = (if 0 \<le> i \<and> i < int (length xs) then Some (xs ! nat i) else None)"

fun indexOf :: "'a list \<Rightarrow> 'a \<Rightarrow> int" where
  \<comment> \<open>Array.prototype.indexOf: the first index holding the value, -1 when there is none\<close>
  "indexOf [] v = -1"
| "indexOf (x # xs) v = (if x = v then 0 else (let i = indexOf xs v in if i < 0 then -1 else i + 1))"

fun findIndex :: "('a \<Rightarrow> bool) \<Rightarrow> 'a list \<Rightarrow> int" where
  \<comment> \<open>Array.prototype.findIndex: the first index whose element satisfies the predicate,
      -1 when there is none\<close>
  "findIndex p [] = -1"
| "findIndex p (x # xs) = (if p x then 0 else (let i = findIndex p xs in if i < 0 then -1 else i + 1))"

datatype failure =
    ProcessExit nat  \<comment> \<open>\<open>process.exit(code)\<close>\<close>
  | TypeError        \<comment> \<open>a TypeError thrown by the engine\<close>
  | Thrown string    \<comment> \<open>\<open>throw new Error(message)\<close>\<close>
  | CsvError         \<comment> \<open>the error csv-parse raises at a record of another length\<close>

section \<open>Column positions of the task definition table\<close>

record col =
  name :: string
  pos :: int

record colHeaders =
  taskCounter :: col
  taskEnabled :: col
  taskSessionTimeout :: col
  taskMaxRetries :: col
  isPartialReload :: col
  isManuallyTriggered :: col
  eventCounter :: col
  eventEnabled :: col
  timeConstraintSeconds :: col
  timeConstraintMinutes :: col
  timeConstraintHours :: col
  timeConstraintDays :: col
  ruleCounter :: col

definition lookupCol :: "cell list \<Rightarrow> string \<Rightarrow> col" where
  "lookupCol headerRow n = \<lparr>name = n, pos = indexOf headerRow (CStr n)\<rparr>"

definition getTaskColumnPosFromHeaderRow :: "cell list \<Rightarrow> colHeaders" where
  \<comment> \<open>Modelled from the spec: util/qseow/lookups.js is not among the sources. Section 4.4
      has the header mapped to the logical columns by name; the names are those of the
      table of mandatory columns (section 6), spelled as the README's table and
      \<open>parseTable\<close> in gettask.js spell them. Only the columns \<open>cast\<close> and the import
      limit read are kept. A column missing from the header has position -1.\<close>
  "getTaskColumnPosFromHeaderRow headerRow =
     \<lparr>taskCounter = lookupCol headerRow ''Task counter'',
      taskEnabled = lookupCol headerRow ''Task enabled'',
      taskSessionTimeout = lookupCol headerRow ''Task timeout'',
      taskMaxRetries = lookupCol headerRow ''Task retries'',
      isPartialReload = lookupCol headerRow ''Partial reload'',
      isManuallyTriggered = lookupCol headerRow ''Manually triggered'',
      eventCounter = lookupCol headerRow ''Event counter'',
      eventEnabled = lookupCol headerRow ''Event enabled'',
      timeConstraintSeconds = lookupCol headerRow ''Time contstraint seconds'',
      timeConstraintMinutes = lookupCol headerRow ''Time contstraint minutes'',
      timeConstraintHours = lookupCol headerRow ''Time contstraint hours'',
      timeConstraintDays = lookupCol headerRow ''Time contstraint days'',
      ruleCounter = lookupCol headerRow ''Rule counter''\<rparr>"

section \<open>Type coercion of a delimited-text source (importtask.js, \<open>cast\<close>)\<close>

text \<open>
  csv-parse hands \<open>cast\<close> the text of each field, so \<open>typeof value !== 'string'\<close> is
  false throughout. \<open>isNumeric\<close> is imported from globals.js, which is not among the
  sources: it is a parameter.
\<close>

definition castTaskCounter :: "(string \<Rightarrow> bool) \<Rightarrow> string \<Rightarrow> failure + cell" where
  \<comment> \<open>lines 62-69\<close>
  "castTaskCounter isNumeric v =
     (if \<not> isNumeric v then Inl (ProcessExit 1) else Inr (CNum (parseInt v)))"

definition cast01 :: "string \<Rightarrow> failure + cell" where
  \<comment> \<open>lines 70-85, 122-137, 138-153, 172-187: 0, 1 or empty\<close>
  "cast01 v =
     (if \<not> (v = ''0'' \<or> v = ''1'' \<or> trim v = '''') then Inl (ProcessExit 1)
      else if v = ''1'' then Inr (CBool True)
      else Inr (CBool False))"

definition castGt0 :: "(string \<Rightarrow> bool) \<Rightarrow> string \<Rightarrow> failure + cell" where
  \<comment> \<open>lines 86-103, 154-171, 260-277: integer greater than 0 or empty\<close>
  "castGt0 isNumeric v =
     (if (length (trim v) > 0 \<and> \<not> isNumeric v) \<or> \<not> (gtNum (parseInt v) 0 \<or> trim v = '''')
      then Inl (ProcessExit 1)
      else if trim v = '''' then Inr (CStr '''')
      else Inr (CNum (parseInt v)))"

definition castGe0 :: "(string \<Rightarrow> bool) \<Rightarrow> string \<Rightarrow> failure + cell" where
  \<comment> \<open>lines 104-121, 188-259: integer equal to or greater than 0 or empty\<close>
  "castGe0 isNumeric v =
     (if (length (trim v) > 0 \<and> \<not> isNumeric v) \<or> \<not> (geNum (parseInt v) 0 \<or> trim v = '''')
      then Inl (ProcessExit 1)
      else if trim v = '''' then Inr (CStr '''')
      else Inr (CNum (parseInt v)))"

definition cast :: "(string \<Rightarrow> bool) \<Rightarrow> colHeaders \<Rightarrow> nat \<Rightarrow> nat \<Rightarrow> string \<Rightarrow> failure + cell" where
  \<comment> \<open>\<open>cast(value, context)\<close> with \<open>context.lines\<close> and \<open>context.column\<close>\<close>
  "cast isNumeric ch lines column v =
     (if lines = 1 then Inr (CStr v)
      else if int column = pos (taskCounter ch) then castTaskCounter isNumeric v
      else if int column = pos (taskEnabled ch) then cast01 v
      else if int column = pos (taskSessionTimeout ch) then castGt0 isNumeric v
      else if int column = pos (taskMaxRetries ch) then castGe0 isNumeric v
      else if int column = pos (isPartialReload ch) then cast01 v
      else if int column = pos (isManuallyTriggered ch) then cast01 v
      else if int column = pos (eventCounter ch) then castGt0 isNumeric v
      else if int column = pos (eventEnabled ch) then cast01 v
      else if int column = pos (timeConstraintSeconds ch) then castGe0 isNumeric v
      else if int column = pos (timeConstraintMinutes ch) then castGe0 isNumeric v
      else if int column = pos (timeConstraintHours ch) then castGe0 isNumeric v
      else if int column = pos (timeConstraintDays ch) then castGe0 isNumeric v
      else if int column = pos (ruleCounter ch) then castGt0 isNumeric v
      else Inr (CStr v))"

section \<open>Reading a delimited-text source (importtask.js)\<close>

text \<open>The options of \<open>task-import\<close> that the functions below read.\<close>

record options =
  fileName :: string
  fileType :: string
  sheetName :: string
  limitImportCount :: string
  importApp :: bool
  importAppSheetName :: string

text \<open>
  The file is given by its rows as csv-parse splits them: the list of the fields of each
  record, and \<open>[]\<close> for an empty line. A quoted field may hold line breaks. csv-parse
  runs with \<open>info: true\<close> and \<open>skip_empty_lines: true\<close>: it counts the lines of the
  file from 1, a line break inside a field as well; it skips the empty lines; it gives
  \<open>cast\<close> the line on which a field ends as \<open>context.lines\<close> and the record the line on
  which it ends as \<open>info.lines\<close>; and it raises an error at a record whose number of
  fields is not that of the first record, which ends the reading of the file. The
  splitting of the bytes of the file into fields is csv-parse's: a file that it cannot
  split (a quote that is not closed, a quote inside an unquoted field) has no list of rows
  and is not among the files modelled here.
\<close>

definition lineBreaks :: "string \<Rightarrow> nat" where
  \<comment> \<open>the number of CR and LF in a field\<close>
  "lineBreaks s = length (filter (\<lambda>c. c = CHR 0x0A \<or> c = CHR 0x0D) s)"

fun fieldLines :: "nat \<Rightarrow> string list \<Rightarrow> (nat \<times> string) list" where
  \<comment> \<open>the fields of a record that starts on line \<open>n\<close>, each with the line on which it ends\<close>
  "fieldLines n [] = []"
| "fieldLines n (f # fs) = (n + lineBreaks f, f) # fieldLines (n + lineBreaks f) fs"

fun parseLines :: "nat \<Rightarrow> string list list \<Rightarrow> (nat \<times> (nat \<times> string) list) list" where
  \<comment> \<open>the records of the rows from line \<open>n\<close> on: \<open>info.lines\<close> and the fields\<close>
  "parseLines n [] = []"
| "parseLines n (l # ls) =
     (if l = [] then parseLines (Suc n) ls
      else (n + sum_list (map lineBreaks l), fieldLines n l)
             # parseLines (Suc (n + sum_list (map lineBreaks l))) ls)"

definition sameFieldCount :: "string list list \<Rightarrow> bool" where
  \<comment> \<open>every record has as many fields as the first record\<close>
  "sameFieldCount file =
     (case filter (\<lambda>l. l \<noteq> []) file of
        [] \<Rightarrow> True
      | first # others \<Rightarrow> list_all (\<lambda>l. length l = length first) others)"

definition parse :: "string list list \<Rightarrow> failure + (nat \<times> (nat \<times> string) list) list" where
  \<comment> \<open>what a loop over the whole parser ends with: the records, or the error\<close>
  "parse file = (if sameFieldCount file then Inr (parseLines 1 file) else Inl CsvError)"

definition getHeaders :: "string list list \<Rightarrow> failure + string list list" where
  \<comment> \<open>lines 13-32: the records whose \<open>info.lines\<close> is 1\<close>
  "getHeaders file =
     (case parse file of
        Inl e \<Rightarrow> Inl e
      | Inr recs \<Rightarrow> Inr (map (\<lambda>r. map snd (snd r)) (filter (\<lambda>r. fst r = 1) recs)))"

fun castFields ::
  "(string \<Rightarrow> bool) \<Rightarrow> colHeaders \<Rightarrow> nat \<Rightarrow> (nat \<times> string) list \<Rightarrow> failure + cell list" where
  \<comment> \<open>\<open>cast\<close> on the fields of one record, from column \<open>column\<close> on\<close>
  "castFields isNumeric ch column [] = Inr []"
| "castFields isNumeric ch column (f # fs) =
     (case cast isNumeric ch (fst f) column (snd f) of
        Inl e \<Rightarrow> Inl e
      | Inr c \<Rightarrow>
          (case castFields isNumeric ch (Suc column) fs of
             Inl e \<Rightarrow> Inl e
           | Inr cs \<Rightarrow> Inr (c # cs)))"

fun castRecords ::
  "(string \<Rightarrow> bool) \<Rightarrow> colHeaders \<Rightarrow> (nat \<times> (nat \<times> string) list) list
    \<Rightarrow> failure + (nat \<times> cell list) list" where
  \<comment> \<open>the parser of lines 49-282: the records of the file, every field through \<open>cast\<close>\<close>
  "castRecords isNumeric ch [] = Inr []"
| "castRecords isNumeric ch (r # rs) =
     (case castFields isNumeric ch 0 (snd r) of
        Inl e \<Rightarrow> Inl e
      | Inr cs \<Rightarrow>
          (case castRecords isNumeric ch rs of
             Inl e \<Rightarrow> Inl e
           | Inr xs \<Rightarrow> Inr ((fst r, cs) # xs)))"

fun collectRecords ::
  "(string \<Rightarrow> number) \<Rightarrow> number \<Rightarrow> int \<Rightarrow> (nat \<times> cell list) list
    \<Rightarrow> cell list list \<Rightarrow> cell list list" where
  \<comment> \<open>lines 284-297; \<open>limit\<close> is \<open>parseInt(options.limitImportCount, 10)\<close> and \<open>p\<close> is
      \<open>colHeaders.taskCounter.pos\<close>\<close>
  "collectRecords toNumber limit p [] records = records"
| "collectRecords toNumber limit p (r # rs) records =
     collectRecords toNumber limit p rs
       (if fst r = 1 then records @ [snd r]
        else if gtNum limit 0 then
          (if leNum (toNumberCell toNumber (elemAt (snd r) p)) limit then records @ [snd r]
           else records)
        else records @ [snd r])"

definition processCsvFile ::
  "(string \<Rightarrow> bool) \<Rightarrow> (string \<Rightarrow> number) \<Rightarrow> options \<Rightarrow> string list list
    \<Rightarrow> failure + cell list list" where
  \<comment> \<open>lines 34-300. \<open>headers[0]\<close> is \<open>undefined\<close> when no record has \<open>info.lines\<close> 1,
      and \<open>for ... of\<close> over it throws a TypeError. The second reading is of the file
      that \<open>getHeaders\<close> has read to its end, so nothing but \<open>cast\<close> can end it early.\<close>
  "processCsvFile isNumeric toNumber options file =
     (case getHeaders file of
        Inl e \<Rightarrow> Inl e
      | Inr [] \<Rightarrow> Inl TypeError
      | Inr (headerRow # _) \<Rightarrow>
          (let colHeaders = getTaskColumnPosFromHeaderRow (map CStr headerRow)
           in case parse file of
                Inl e \<Rightarrow> Inl e
              | Inr parsed \<Rightarrow>
                  (case castRecords isNumeric colHeaders parsed of
                     Inl e \<Rightarrow> Inl e
                   | Inr recs \<Rightarrow>
                       Inr (collectRecords toNumber (parseInt (limitImportCount options))
                              (pos (taskCounter colHeaders)) recs []))))"

section \<open>Import of tasks from a file (importtask.js, \<open>importTaskFromFile\<close>)\<close>

record worksheet =
  wsName :: string
  data :: "cell list list"

type_synonym importedApps = "(nat \<times> string) list"

text \<open>
  What the run reads from outside and the collaborators that are not among the sources
  (tag.js, customproperties.js, class_allapps.js, class_alltasks.js) are parameters.
  \<open>importAppsFromFiles\<close> stands for \<open>new QlikSenseApps()\<close>, \<open>init\<close> and
  \<open>importAppsFromFiles\<close>; \<open>getTaskModelFromFile\<close> for \<open>new QlikSenseTasks()\<close>,
  \<open>init(options, importedApps)\<close> and \<open>getTaskModelFromFile\<close>, with \<open>None\<close> a falsy
  result.
\<close>

record env =
  getTagsFromQseow :: "failure + string list"
  getCustomPropertiesFromQseow :: "failure + string list"
  verifyFileSystemExists :: bool
  csvFile :: "string list list"
  xlsxParse :: "worksheet list"
  globalsIsNumeric :: "string \<Rightarrow> bool"
  engineToNumber :: "string \<Rightarrow> number"
  importAppsFromFiles :: "worksheet option \<Rightarrow> string list \<Rightarrow> string list \<Rightarrow> failure + importedApps"
  getTaskModelFromFile ::
    "worksheet option \<Rightarrow> string list \<Rightarrow> string list \<Rightarrow> importedApps option
      \<Rightarrow> failure + string list option"

datatype event =
    AppImportStarted                      \<comment> \<open>\<open>importAppsFromFiles\<close> is called\<close>
  | AppImportFinished importedApps        \<comment> \<open>its promise is fulfilled with the mapping\<close>
  | TaskImportStarted "importedApps option"
      \<comment> \<open>\<open>qlikSenseTasks.init(options, importedApps)\<close> and \<open>getTaskModelFromFile\<close> are called\<close>
  | Logged string failure                 \<comment> \<open>\<open>catchLog\<close> has written the error to the log\<close>

datatype retval = TaskList "string list" | RFalse | RUndefined

datatype 'a outcome =
    Returned 'a     \<comment> \<open>the function returns to its caller\<close>
  | Exited nat      \<comment> \<open>\<open>process.exit(code)\<close> ended the process\<close>
  | Rejected failure \<comment> \<open>an exception left the function\<close>

definition catchLog :: "string \<Rightarrow> failure \<Rightarrow> event list \<Rightarrow> event list" where
  \<comment> \<open>Modelled from the spec: util/log.js is not among the sources. Section 7 has every
      failure reported to the user, section 9 names the module-level logger that does
      it. Every call of \<open>catchLog\<close> in the sources (gettask.js, vistask.js) is followed by
      a \<open>return\<close> of its caller, and the \<open>catch\<close> of the earlier cmd/importtask.js is
      a single \<open>logger.error\<close>: it logs and returns.\<close>
  "catchLog msgContext err trace = trace @ [Logged msgContext err]"

definition limitTasks :: "(string \<Rightarrow> number) \<Rightarrow> options \<Rightarrow> worksheet \<Rightarrow> failure + worksheet" where
  \<comment> \<open>lines 360-383; \<open>tasksFromFile.data[0]\<close> of a sheet without rows is \<open>undefined\<close>, and
      the lookup of a column in it throws a TypeError\<close>
  "limitTasks toNumber options tasksFromFile =
     (if gtNum (parseInt (limitImportCount options)) 0 then
        (case data tasksFromFile of
           [] \<Rightarrow> Inl TypeError
         | headerRow # _ \<Rightarrow>
             (let colHeaders = getTaskColumnPosFromHeaderRow headerRow;
                  limitedTasks =
                    filter (\<lambda>task.
                      if elemAt task (pos (taskCounter colHeaders))
                           = Some (CStr (name (taskCounter colHeaders))) then True
                      else if leNum (toNumberCell toNumber (elemAt task (pos (taskCounter colHeaders))))
                                (parseInt (limitImportCount options)) then True
                      else False) (data tasksFromFile)
              in Inr (tasksFromFile\<lparr>data := limitedTasks\<rparr>)))
      else Inr tasksFromFile)"

fun replaceFirst :: "('a \<Rightarrow> bool) \<Rightarrow> 'a \<Rightarrow> 'a list \<Rightarrow> 'a list" where
  \<comment> \<open>the list with its first element that satisfies the predicate replaced\<close>
  "replaceFirst p y [] = []"
| "replaceFirst p y (x # xs) = (if p x then y # xs else x # replaceFirst p y xs)"

definition loadDefinitions ::
  "env \<Rightarrow> options \<Rightarrow> failure + (worksheet option \<times> worksheet option)" where
  \<comment> \<open>lines 329-392: \<open>tasksFromFile\<close> and \<open>appsFromFile\<close>, \<open>None\<close> for \<open>null\<close>.
      \<open>tasksFromFile\<close> is the sheet object that \<open>find\<close> returns from
      \<open>workSheetsFromFile\<close>, and the limit refills its \<open>data\<close> in place (381-382): the
      app sheet is looked up in the list that holds the limited sheet.\<close>
  "loadDefinitions e options =
     (if fileType options = ''csv'' then
        (case processCsvFile (globalsIsNumeric e) (engineToNumber e) options (csvFile e) of
           Inl err \<Rightarrow> Inl err
         | Inr tmpTasksFromFile \<Rightarrow>
             Inr (Some \<lparr>wsName = ''Ctrl-Q task import from CSV'', data = tmpTasksFromFile\<rparr>, None))
      else if fileType options = ''excel'' then
        (case find (\<lambda>item. wsName item = sheetName options) (xlsxParse e) of
           None \<Rightarrow>
             Inl (Thrown (''EXCEL IMPORT: Can't find sheet '' @ sheetName options
                          @ '' in file '' @ fileName options))
         | Some tasksFromFile \<Rightarrow>
             (case limitTasks (engineToNumber e) options tasksFromFile of
                Inl err \<Rightarrow> Inl err
              | Inr limited \<Rightarrow>
                  (if importApp options then
                     (case find (\<lambda>item. wsName item = importAppSheetName options)
                             (replaceFirst (\<lambda>item. wsName item = sheetName options) limited
                                (xlsxParse e)) of
                        None \<Rightarrow>
                          Inl (Thrown (''EXCEL IMPORT: Can't find sheet ''
                                       @ importAppSheetName options
                                       @ '' in file '' @ fileName options))
                      | Some appsFromFile \<Rightarrow> Inr (Some limited, Some appsFromFile))
                   else Inr (Some limited, None))))
      else Inr (None, None))"

definition importTaskFromFileBody ::
  "env \<Rightarrow> options \<Rightarrow> (failure + retval) \<times> event list" where
  \<comment> \<open>the \<open>try\<close> block, lines 304-414, with the calls it has made\<close>
  "importTaskFromFileBody e options =
     (case getTagsFromQseow e of
        Inl err \<Rightarrow> (Inl err, [])
      | Inr tagsExisting \<Rightarrow>
     (case getCustomPropertiesFromQseow e of
        Inl err \<Rightarrow> (Inl err, [])
      | Inr cpExisting \<Rightarrow>
     (if \<not> verifyFileSystemExists e then (Inl (ProcessExit 1), [])
      else
     (case loadDefinitions e options of
        Inl err \<Rightarrow> (Inl err, [])
      | Inr (tasksFromFile, appsFromFile) \<Rightarrow>
     (case (if importApp options then
              (case importAppsFromFiles e appsFromFile tagsExisting cpExisting of
                 Inl err \<Rightarrow> (Inl err, [AppImportStarted])
               | Inr apps \<Rightarrow> (Inr (Some apps), [AppImportStarted, AppImportFinished apps]))
            else (Inr None, [])) of
        (Inl err, trace) \<Rightarrow> (Inl err, trace)
      | (Inr importedApps, trace) \<Rightarrow>
     (case getTaskModelFromFile e tasksFromFile tagsExisting cpExisting importedApps of
        Inl err \<Rightarrow> (Inl err, trace @ [TaskImportStarted importedApps])
      | Inr None \<Rightarrow> (Inr RFalse, trace @ [TaskImportStarted importedApps])
      | Inr (Some taskList) \<Rightarrow> (Inr (TaskList taskList), trace @ [TaskImportStarted importedApps])))))))"

definition importTaskFromFile :: "env \<Rightarrow> options \<Rightarrow> retval outcome \<times> event list" where
  \<comment> \<open>lines 302-418: \<open>process.exit\<close> ends the process, any exception reaches the \<open>catch\<close>,
      after which the function ends without a \<open>return\<close>\<close>
  "importTaskFromFile e options =
     (case importTaskFromFileBody e options of
        (Inr v, trace) \<Rightarrow> (Returned v, trace)
      | (Inl (ProcessExit code), trace) \<Rightarrow> (Exited code, trace)
      | (Inl err, trace) \<Rightarrow> (Returned RUndefined, catchLog ''IMPORT TASK 2'' err trace))"

section \<open>Circular task chains (vistask.js)\<close>

record node =
  nodeId :: string      \<comment> \<open>\<open>id\<close>\<close>
  taskName :: string

record chain =
  fromTask :: node
  toTask :: node

definition filterIndexed :: "('a \<Rightarrow> nat \<Rightarrow> 'a list \<Rightarrow> bool) \<Rightarrow> 'a list \<Rightarrow> 'a list" where
  \<comment> \<open>\<open>self.filter((x, index, self) => ...)\<close>\<close>
  "filterIndexed p self = map fst (filter (\<lambda>(x, index). p x index self) (zip self [0..<length self]))"

definition deduplicatedCircularTaskChain :: "chain list \<Rightarrow> chain list" where
  \<comment> \<open>lines 621-624\<close>
  "deduplicatedCircularTaskChain circularTaskChains =
     filterIndexed
       (\<lambda>chain index self.
          findIndex (\<lambda>c. nodeId (fromTask c) = nodeId (fromTask chain)
                        \<and> nodeId (toTask c) = nodeId (toTask chain)) self = int index)
       circularTaskChains"

definition endpoints :: "chain \<Rightarrow> string \<times> string" where
  "endpoints c = (nodeId (fromTask c), nodeId (toTask c))"

definition unorderedEndpoints :: "chain \<Rightarrow> string set" where
  "unorderedEndpoints c = {nodeId (fromTask c), nodeId (toTask c)}"

section \<open>Task tree output (gettask.js)\<close>

text \<open>
  A task tree is an array of node objects. The value of a property is a primitive, \<open>null\<close>,
  an array of node objects, or another object (\<open>VObject\<close>).
\<close>

datatype tnode = TNode "(string \<times> tval) list"
and tval =
    VStr string | VNum int | VBool bool | VUndefined
  | VNull | VObject
  | VNodes "tnode list"

fun cleanupTaskTree :: "tnode list \<Rightarrow> failure + tnode list"
and cleanupElement :: "tnode \<Rightarrow> failure + tnode"
and cleanupProps :: "(string \<times> tval) list \<Rightarrow> failure + (string \<times> tval) list" where
  \<comment> \<open>lines 48-58. \<open>typeof\<close> is \<open>'object'\<close> for an array, for \<open>null\<close> and for any other
      object; \<open>forEach\<close> of \<open>null\<close> or of an object that is not an array throws a
      TypeError. The source changes the tree in place; the cleaned tree is returned.\<close>
  "cleanupTaskTree [] = Inr []"
| "cleanupTaskTree (element # rest) =
     (case cleanupElement element of
        Inl e \<Rightarrow> Inl e
      | Inr el \<Rightarrow>
          (case cleanupTaskTree rest of
             Inl e \<Rightarrow> Inl e
           | Inr r \<Rightarrow> Inr (el # r)))"
| "cleanupElement (TNode props) =
     (case cleanupProps props of Inl e \<Rightarrow> Inl e | Inr ps \<Rightarrow> Inr (TNode ps))"
| "cleanupProps [] = Inr []"
| "cleanupProps ((prop, v) # ps) =
     (if prop \<noteq> ''text'' \<and> prop \<noteq> ''children'' then cleanupProps ps
      else
        (case v of
           VNodes ns \<Rightarrow>
             (case cleanupTaskTree ns of
                Inl e \<Rightarrow> Inl e
              | Inr ns' \<Rightarrow>
                  (case cleanupProps ps of
                     Inl e \<Rightarrow> Inl e
                   | Inr ps' \<Rightarrow> Inr ((prop, VNodes ns') # ps')))
         | VNull \<Rightarrow> Inl TypeError
         | VObject \<Rightarrow> Inl TypeError
         | _ \<Rightarrow>
             (case cleanupProps ps of
                Inl e \<Rightarrow> Inl e
              | Inr ps' \<Rightarrow> Inr ((prop, v) # ps'))))"

fun onlyTextAndChildren :: "tnode list \<Rightarrow> bool"
and onlyTextAndChildrenNode :: "tnode \<Rightarrow> bool"
and onlyTextAndChildrenProps :: "(string \<times> tval) list \<Rightarrow> bool" where
  \<comment> \<open>every node of the tree, at every depth, has no property other than \<open>text\<close> and
      \<open>children\<close>\<close>
  "onlyTextAndChildren [] = True"
| "onlyTextAndChildren (n # ns) = (onlyTextAndChildrenNode n \<and> onlyTextAndChildren ns)"
| "onlyTextAndChildrenNode (TNode props) = onlyTextAndChildrenProps props"
| "onlyTextAndChildrenProps [] = True"
| "onlyTextAndChildrenProps ((prop, v) # ps) =
     ((prop = ''text'' \<or> prop = ''children'')
      \<and> (case v of VNodes ns \<Rightarrow> onlyTextAndChildren ns | _ \<Rightarrow> True)
      \<and> onlyTextAndChildrenProps ps)"

record taskGetOptions =
  outputDest :: string
  outputFileFormat :: string
  outputFileName :: string
  outputFileOverwrite :: bool

type_synonym files = "string \<Rightarrow> tnode list option"

definition parseTree ::
  "taskGetOptions \<Rightarrow> tnode list option \<Rightarrow> bool \<Rightarrow> bool \<Rightarrow> files \<Rightarrow> bool outcome \<times> files" where
  \<comment> \<open>lines 677-894. Lines 680-838 assemble \<open>taskTree\<close> from the task model
      (class_alltasks.js, not among the sources): \<open>assembled\<close> is that tree, or \<open>None\<close>
      when a sub tree could not be had and the function returned \<open>false\<close>. \<open>fileExists\<close>
      is the answer of \<open>verifyFileSystemExists\<close>, \<open>ok\<close> the answer to the overwrite
      question. A file holds the tree that \<open>JSON.stringify\<close> was given.\<close>
  "parseTree options assembled fileExists ok files =
     (case assembled of
        None \<Rightarrow> (Returned False, files)
      | Some taskTree \<Rightarrow>
          (if outputDest options = ''screen'' then (Returned True, files)
           else if outputDest options = ''file'' then
             (if outputFileFormat options = ''json'' then
                (case cleanupTaskTree taskTree of
                   Inl e \<Rightarrow> (Rejected e, files)
                 | Inr buffer \<Rightarrow>
                     (if \<not> fileExists then
                        (Returned True, files(outputFileName options \<mapsto> buffer))
                      else if \<not> outputFileOverwrite options then
                        (if \<not> ok then (Exited 1, files)
                         else (Returned True, files(outputFileName options \<mapsto> buffer)))
                      else (Returned True, files(outputFileName options \<mapsto> buffer))))
              else (Exited 1, files))
           else (Returned False, files)))"

section \<open>Example data\<close>

text \<open>
  Instances of the two parameters for the examples: on a string of decimal digits
  \<open>isNumeric\<close> is true, and ToNumber of the text of a decimal integer is that integer
  (of the empty string and of white space, 0).
\<close>

definition digitsOnly :: "string \<Rightarrow> bool" where
  "digitsOnly v = (v \<noteq> [] \<and> list_all isDigit v)"

definition integerToNumber :: "string \<Rightarrow> number" where
  "integerToNumber s =
     (let t = trim s
      in if t = [] then Num 0
         else if digitsOnly (if hd t = CHR ''-'' \<or> hd t = CHR ''+'' then tl t else t) then parseInt t
         else NaN)"

definition exampleHeader :: "string list" where
  "exampleHeader =
     [''Task counter'', ''Task type'', ''Task name'', ''Task id'', ''Task enabled'', ''Task timeout'']"

definition exampleColHeaders :: colHeaders where
  "exampleColHeaders = getTaskColumnPosFromHeaderRow (map CStr exampleHeader)"

definition exampleCsv :: "string list list" where
  \<comment> \<open>three tasks, with an empty line after the first\<close>
  "exampleCsv =
     [exampleHeader,
      [''1'', ''Reload'', ''A'', ''t1'', ''1'', ''1440''],
      [],
      [''2'', ''Reload'', ''B'', ''t2'', ''0'', ''''],
      [''3'', ''Reload'', ''C'', ''t3'', '''', ''60'']]"

definition exampleOptions :: options where
  "exampleOptions =
     \<lparr>fileName = ''tasks.csv'', fileType = ''csv'', sheetName = ''Sheet1'',
      limitImportCount = ''2'', importApp = False, importAppSheetName = ''''\<rparr>"

text \<open>Two chains between the same two tasks, in opposite directions.\<close>

definition chainAB :: chain where
  "chainAB = \<lparr>fromTask = \<lparr>nodeId = ''A'', taskName = ''Task A''\<rparr>,
               toTask = \<lparr>nodeId = ''B'', taskName = ''Task B''\<rparr>\<rparr>"

definition chainBA :: chain where
  "chainBA = \<lparr>fromTask = \<lparr>nodeId = ''B'', taskName = ''Task B''\<rparr>,
               toTask = \<lparr>nodeId = ''A'', taskName = ''Task A''\<rparr>\<rparr>"

text \<open>The predicate that \<open>findIndex\<close> is given for a chain.\<close>

definition sameEndpoints :: "chain \<Rightarrow> chain \<Rightarrow> bool" where
  "sameEndpoints chain c = (nodeId (fromTask c) = nodeId (fromTask chain) \<and> nodeId (toTask c) = nodeId (toTask chain))"

text \<open>
  A task tree on which \<open>cleanupTaskTree\<close> does not throw: under \<open>text\<close> and \<open>children\<close>,
  at every depth, there is no \<open>null\<close> and no object other than an array of nodes.
\<close>

fun arraysOnly :: "tnode list \<Rightarrow> bool"
and arraysOnlyNode :: "tnode \<Rightarrow> bool"
and arraysOnlyProps :: "(string \<times> tval) list \<Rightarrow> bool" where
  "arraysOnly [] = True"
| "arraysOnly (n # ns) = (arraysOnlyNode n \<and> arraysOnly ns)"
| "arraysOnlyNode (TNode props) = arraysOnlyProps props"
| "arraysOnlyProps [] = True"
| "arraysOnlyProps ((prop, v) # ps) =
     ((prop = ''text'' \<or> prop = ''children'' \<longrightarrow>
         (case v of VNodes ns \<Rightarrow> arraysOnly ns | VNull \<Rightarrow> False | VObject \<Rightarrow> False | _ \<Rightarrow> True))
      \<and> arraysOnlyProps ps)"

definition exampleTree :: "tnode list" where
  \<comment> \<open>the label node of the scheduled tasks, over task A with its downstream task B\<close>
  "exampleTree =
     [TNode [(''text'', VStr ''--==| Scheduled tasks |==--''),
             (''children'',
                VNodes [TNode [(''id'', VStr ''t1''),
                               (''text'', VStr ''Task A''),
                               (''children'',
                                  VNodes [TNode [(''id'', VStr ''t2''),
                                                 (''text'', VStr ''Task B''),
                                                 (''children'', VNodes []),
                                                 (''taskLastStatus'', VStr ''FinishedSuccess'')]]),
                               (''isTopLevelNode'', VBool True),
                               (''isScheduled'', VBool True)]]),
             (''isTreeLabel'', VBool True)]]"

definition exampleCleanedTree :: "tnode list" where
  "exampleCleanedTree =
     [TNode [(''text'', VStr ''--==| Scheduled tasks |==--''),
             (''children'',
                VNodes [TNode [(''text'', VStr ''Task A''),
                               (''children'',
                                  VNodes [TNode [(''text'', VStr ''Task B''),
                                                 (''children'', VNodes [])]])]])]]"

definition exampleCsvTreeOptions :: taskGetOptions where
  "exampleCsvTreeOptions =
     \<lparr>outputDest = ''file'', outputFileFormat = ''csv'',
      outputFileName = ''tree.csv'', outputFileOverwrite = True\<rparr>"

definition exampleJsonTreeOptions :: taskGetOptions where
  "exampleJsonTreeOptions =
     \<lparr>outputDest = ''file'', outputFileFormat = ''json'',
      outputFileName = ''tree.json'', outputFileOverwrite = True\<rparr>"

text \<open>
  An Excel file with a sheet of task definitions and a sheet of app definitions, a
  server on which every call succeeds, and the options of three runs: an import of the
  first task with its app, an import from a sheet that the file does not have, and an
  import without a limit.
\<close>

definition exampleTaskSheet :: worksheet where
  "exampleTaskSheet =
     \<lparr>wsName = ''Tasks'',
      data =
        [map CStr exampleHeader,
         [CNum (Num 1), CStr ''Reload'', CStr ''A'', CStr ''t1'', CNum (Num 1), CNum (Num 1440)],
         [CNum (Num 1), CUndefined, CUndefined, CUndefined, CUndefined, CUndefined],
         [CNum (Num 2), CStr ''Reload'', CStr ''B'', CStr ''t2'', CNum (Num 0), CUndefined],
         [CNum (Num 3), CStr ''Reload'', CStr ''C'', CStr ''t3'', CUndefined, CNum (Num 60)]]\<rparr>"

definition exampleAppSheet :: worksheet where
  "exampleAppSheet =
     \<lparr>wsName = ''Apps'',
      data =
        [map CStr [''App counter'', ''App name'', ''QVF directory'', ''QVF name''],
         [CNum (Num 1), CStr ''A1'', CStr ''qvf'', CStr ''a1.qvf'']]\<rparr>"

definition exampleImportApps ::
  "worksheet option \<Rightarrow> string list \<Rightarrow> string list \<Rightarrow> failure + importedApps" where
  "exampleImportApps appsFromFile tagsExisting cpExisting = Inr [(1, ''app-guid-1'')]"

definition exampleGetTaskModel ::
  "worksheet option \<Rightarrow> string list \<Rightarrow> string list \<Rightarrow> importedApps option
    \<Rightarrow> failure + string list option" where
  "exampleGetTaskModel tasksFromFile tagsExisting cpExisting importedApps = Inr (Some [''task-guid-1''])"

definition exampleEnv :: env where
  "exampleEnv =
     \<lparr>getTagsFromQseow = Inr [''tag1''],
      getCustomPropertiesFromQseow = Inr [],
      verifyFileSystemExists = True,
      csvFile = [],
      xlsxParse = [exampleTaskSheet, exampleAppSheet],
      globalsIsNumeric = digitsOnly,
      engineToNumber = integerToNumber,
      importAppsFromFiles = exampleImportApps,
      getTaskModelFromFile = exampleGetTaskModel\<rparr>"

definition exampleExcelOptions :: options where
  "exampleExcelOptions =
     \<lparr>fileName = ''tasks.xlsx'', fileType = ''excel'', sheetName = ''Tasks'',
      limitImportCount = ''1'', importApp = True, importAppSheetName = ''Apps''\<rparr>"

definition missingSheetOptions :: options where
  "missingSheetOptions =
     \<lparr>fileName = ''tasks.xlsx'', fileType = ''excel'', sheetName = ''Missing'',
      limitImportCount = ''0'', importApp = False, importAppSheetName = ''''\<rparr>"


text \<open>
  A run that asks for the same sheet as the sheet of tasks and as the sheet of apps, and a
  sheet in which the header row is repeated after the first task.
\<close>

definition sameSheetOptions :: options where
  "sameSheetOptions =
     \<lparr>fileName = ''tasks.xlsx'', fileType = ''excel'', sheetName = ''Tasks'',
      limitImportCount = ''1'', importApp = True, importAppSheetName = ''Tasks''\<rparr>"


definition noFiles :: files where
  "noFiles = Map.empty"

text \<open>
  The import limit in the words of the specification: the Task counter of a row of a
  delimited-text source is the number that \<open>parseInt\<close> reads in its field of the Task
  counter column; with a limit of 0 every row is within the limit, with a limit N > 0 the
  rows whose Task counter is at most N.
\<close>

definition taskCounterOf :: "int \<Rightarrow> string list \<Rightarrow> number" where
  "taskCounterOf p raw = (case elemAt raw p of None \<Rightarrow> NaN | Some v \<Rightarrow> parseInt v)"

definition withinLimit :: "int \<Rightarrow> number \<Rightarrow> bool" where
  "withinLimit N counter = (N = 0 \<or> leNum counter (Num N))"

text \<open>
  The fields of a row of data as \<open>cast\<close> is given them. The coercion of a field that
  ends on a line other than the first does not depend on the number of the line, which is
  written 2.
\<close>

definition dataFields :: "string list \<Rightarrow> (nat \<times> string) list" where
  "dataFields raw = map (Pair 2) raw"

text \<open>The rows that the example source yields with a limit of 2.\<close>

definition exampleRows :: "cell list list" where
  "exampleRows =
     [map CStr exampleHeader,
      [CNum (Num 1), CStr ''Reload'', CStr ''A'', CStr ''t1'', CBool True, CNum (Num 1440)],
      [CNum (Num 2), CStr ''Reload'', CStr ''B'', CStr ''t2'', CBool False, CStr '''']]"


section \<open>Properties of the type coercion\<close>

lemma indexOf_ge0: "0 \<le> indexOf xs v \<Longrightarrow> nat (indexOf xs v) < length xs \<and> xs ! nat (indexOf xs v) = v"
proof (induction xs)
  case Nil then show ?case by simp
next
  case (Cons x xs)
  show ?case
  proof (cases "x = v")
    case True then show ?thesis by simp
  next
    case False
    with Cons.prems have ge: "0 \<le> indexOf xs v" by (simp add: Let_def split: if_splits)
    with Cons.IH have ih: "nat (indexOf xs v) < length xs \<and> xs ! nat (indexOf xs v) = v" by simp
    from False ge have "indexOf (x # xs) v = indexOf xs v + 1" by (simp add: Let_def)
    with ih ge show ?thesis by (simp add: nat_add_distrib)
  qed
qed

lemma indexOf_inj: "indexOf xs a = indexOf xs b \<Longrightarrow> 0 \<le> indexOf xs a \<Longrightarrow> a = b"
  by (metis indexOf_ge0)

lemma pos_lookupCol_eq:
  "pos (lookupCol h a) = pos (lookupCol h b) \<Longrightarrow> int c = pos (lookupCol h a) \<Longrightarrow> a = b"
  using indexOf_inj[of h "CStr a" "CStr b"] by (simp add: lookupCol_def)

lemma pos_lookupCol_neq:
  "a \<noteq> b \<Longrightarrow> int c = pos (lookupCol h a) \<Longrightarrow> int c \<noteq> pos (lookupCol h b)"
  using pos_lookupCol_eq by metis

lemma trim_1: "trim ''1'' = ''1''" by (simp add: trim_def isWhiteSpace_def)

lemma cast01_true: "cast01 v = Inr (CBool True) \<longleftrightarrow> v = ''1''"
  by (auto simp: cast01_def trim_1)
lemma cast01_false: "cast01 v = Inr (CBool False) \<longleftrightarrow> (v = ''0'' \<or> trim v = '''')"
  by (auto simp: cast01_def trim_1)
lemma cast01_exit: "v \<noteq> ''1'' \<Longrightarrow> v \<noteq> ''0'' \<Longrightarrow> trim v \<noteq> '''' \<Longrightarrow> cast01 v = Inl (ProcessExit 1)"
  by (auto simp: cast01_def)

lemma cast_taskEnabled:
  assumes "int column = pos (lookupCol h ''Task enabled'')" and "lines \<noteq> 1"
  shows "cast isNumeric (getTaskColumnPosFromHeaderRow h) lines column v = cast01 v"
  unfolding cast_def getTaskColumnPosFromHeaderRow_def
  using assms pos_lookupCol_neq[OF _ assms(1), of "''Task counter''"] by simp

lemma cast_isPartialReload:
  assumes "int column = pos (lookupCol h ''Partial reload'')" and "lines \<noteq> 1"
  shows "cast isNumeric (getTaskColumnPosFromHeaderRow h) lines column v = cast01 v"
  unfolding cast_def getTaskColumnPosFromHeaderRow_def
  using assms pos_lookupCol_neq[OF _ assms(1), of "''Task counter''"]
    pos_lookupCol_neq[OF _ assms(1), of "''Task enabled''"]
    pos_lookupCol_neq[OF _ assms(1), of "''Task timeout''"]
    pos_lookupCol_neq[OF _ assms(1), of "''Task retries''"] by simp

lemma cast_isManuallyTriggered:
  assumes "int column = pos (lookupCol h ''Manually triggered'')" and "lines \<noteq> 1"
  shows "cast isNumeric (getTaskColumnPosFromHeaderRow h) lines column v = cast01 v"
  unfolding cast_def getTaskColumnPosFromHeaderRow_def
  using assms pos_lookupCol_neq[OF _ assms(1), of "''Task counter''"]
    pos_lookupCol_neq[OF _ assms(1), of "''Task enabled''"]
    pos_lookupCol_neq[OF _ assms(1), of "''Task timeout''"]
    pos_lookupCol_neq[OF _ assms(1), of "''Task retries''"]
    pos_lookupCol_neq[OF _ assms(1), of "''Partial reload''"] by simp

lemma cast_eventEnabled:
  assumes "int column = pos (lookupCol h ''Event enabled'')" and "lines \<noteq> 1"
  shows "cast isNumeric (getTaskColumnPosFromHeaderRow h) lines column v = cast01 v"
  unfolding cast_def getTaskColumnPosFromHeaderRow_def
  using assms pos_lookupCol_neq[OF _ assms(1), of "''Task counter''"]
    pos_lookupCol_neq[OF _ assms(1), of "''Task enabled''"]
    pos_lookupCol_neq[OF _ assms(1), of "''Task timeout''"]
    pos_lookupCol_neq[OF _ assms(1), of "''Task retries''"]
    pos_lookupCol_neq[OF _ assms(1), of "''Partial reload''"]
    pos_lookupCol_neq[OF _ assms(1), of "''Manually triggered''"]
    pos_lookupCol_neq[OF _ assms(1), of "''Event counter''"] by simp

lemma cast_taskSessionTimeout:
  assumes "int column = pos (lookupCol h ''Task timeout'')" and "lines \<noteq> 1"
  shows "cast isNumeric (getTaskColumnPosFromHeaderRow h) lines column v = castGt0 isNumeric v"
  unfolding cast_def getTaskColumnPosFromHeaderRow_def
  using assms pos_lookupCol_neq[OF _ assms(1), of "''Task counter''"]
    pos_lookupCol_neq[OF _ assms(1), of "''Task enabled''"] by simp

lemma exampleColHeaders_pos:
  "pos (taskCounter exampleColHeaders) = 0"
  "pos (taskEnabled exampleColHeaders) = 4"
  "pos (taskSessionTimeout exampleColHeaders) = 5"
  by (simp_all add: exampleColHeaders_def exampleHeader_def getTaskColumnPosFromHeaderRow_def lookupCol_def)

lemma parseInt_0: "parseInt ''0'' = Num 0"
  by (simp add: parseInt_def isWhiteSpace_def isDigit_def roundToDouble_def)

lemma trim_0: "trim ''0'' = ''0''" by (simp add: trim_def isWhiteSpace_def)

lemma castGt0_zero: "castGt0 isNumeric ''0'' = Inl (ProcessExit 1)"
  by (simp add: castGt0_def parseInt_0 trim_0 gtNum_def)

lemma gtNum_0_cases: "gtNum x 0 \<longleftrightarrow> (\<exists>n. x = Num n \<and> 0 < n) \<or> x = PosInf"
  by (cases x) (simp_all add: gtNum_def)

lemma castGt0_accepts:
  "castGt0 isNumeric v = Inr c \<longleftrightarrow>
     (trim v = '''' \<and> c = CStr '''')
     \<or> (trim v \<noteq> '''' \<and> isNumeric v
          \<and> ((\<exists>n. parseInt v = Num n \<and> 0 < n \<and> c = CNum (Num n))
               \<or> (parseInt v = PosInf \<and> c = CNum PosInf)))"
proof (cases "trim v = ''''")
  case True
  then show ?thesis by (auto simp: castGt0_def)
next
  case False
  then have "castGt0 isNumeric v = Inr c \<longleftrightarrow> isNumeric v \<and> gtNum (parseInt v) 0 \<and> c = CNum (parseInt v)"
    by (auto simp: castGt0_def)
  also have "\<dots> \<longleftrightarrow> isNumeric v
          \<and> ((\<exists>n. parseInt v = Num n \<and> 0 < n \<and> c = CNum (Num n))
               \<or> (parseInt v = PosInf \<and> c = CNum PosInf))"
    unfolding gtNum_0_cases by auto
  finally show ?thesis using False by simp
qed

section \<open>Properties of the de-duplication of circular task chains\<close>

lemma findIndex_found:
  "findIndex p xs = int i \<Longrightarrow> i < length xs \<and> p (xs ! i) \<and> (\<forall>j<i. \<not> p (xs ! j))"
proof (induction xs arbitrary: i)
  case Nil then show ?case by simp
next
  case (Cons x xs)
  show ?case
  proof (cases "p x")
    case True
    with Cons.prems have "i = 0" by simp
    with True show ?thesis by simp
  next
    case False
    with Cons.prems have nn: "\<not> findIndex p xs < 0" and e: "findIndex p xs + 1 = int i"
      by (auto simp: Let_def split: if_splits)
    then obtain k where k: "i = Suc k" "findIndex p xs = int k"
      by (cases i) auto
    from Cons.IH[OF k(2)] have ih: "k < length xs" "p (xs ! k)" "\<forall>j<k. \<not> p (xs ! j)" by auto
    show ?thesis
    proof (intro conjI allI impI)
      show "i < length (x # xs)" using k ih by simp
      show "p ((x # xs) ! i)" using k ih by simp
      fix j assume "j < i"
      then show "\<not> p ((x # xs) ! j)" using k ih False by (cases j) auto
    qed
  qed
qed

lemma findIndex_exists:
  "x \<in> set xs \<Longrightarrow> p x \<Longrightarrow> \<exists>i. findIndex p xs = int i"
proof (induction xs)
  case Nil then show ?case by simp
next
  case (Cons y ys)
  show ?case
  proof (cases "p y")
    case True then show ?thesis by simp
  next
    case False
    with Cons.prems have "x \<in> set ys" by auto
    from Cons.IH[OF this Cons.prems(2)] obtain k where k: "findIndex p ys = int k" by blast
    with False have "findIndex p (y # ys) = int (Suc k)" by (simp add: Let_def)
    then show ?thesis by blast
  qed
qed

lemma zip_upt_nth: "zip xs [0..<length xs] = map (\<lambda>i. (xs ! i, i)) [0..<length xs]"
  by (rule nth_equalityI) simp_all

lemma filterIndexed_nth:
  "filterIndexed p xs = map (\<lambda>i. xs ! i) (filter (\<lambda>i. p (xs ! i) i xs) [0..<length xs])"
  unfolding filterIndexed_def zip_upt_nth
  by (simp add: filter_map comp_def)

lemma dedup_nth:
  "deduplicatedCircularTaskChain cs =
     map (\<lambda>i. cs ! i) (filter (\<lambda>i. findIndex (sameEndpoints (cs ! i)) cs = int i) [0..<length cs])"
  unfolding deduplicatedCircularTaskChain_def filterIndexed_nth sameEndpoints_def by simp

lemma sameEndpoints_eq: "endpoints a = endpoints b \<Longrightarrow> sameEndpoints a = sameEndpoints b"
  by (auto simp: endpoints_def sameEndpoints_def fun_eq_iff)

lemma sameEndpoints_iff: "sameEndpoints a c \<longleftrightarrow> endpoints c = endpoints a"
  by (auto simp: endpoints_def sameEndpoints_def)

section \<open>Properties of the task tree output\<close>

lemma cleanup_only:
  "(\<forall>r. cleanupTaskTree ns = Inr r \<longrightarrow> onlyTextAndChildren r)"
  "(\<forall>r. cleanupElement n = Inr r \<longrightarrow> onlyTextAndChildrenNode r)"
  "(\<forall>r. cleanupProps ps = Inr r \<longrightarrow> onlyTextAndChildrenProps r)"
proof (induction ns and n and ps rule: cleanupTaskTree_cleanupElement_cleanupProps.induct)
  case 1 show ?case by simp
next
  case (2 element rest)
  then show ?case by (auto split: sum.splits)
next
  case (3 props)
  then show ?case by (auto split: sum.splits)
next
  case 4 show ?case by simp
next
  case (5 key v ps)
  then show ?case by (auto split: sum.splits tval.splits if_splits)
qed

lemma cleanup_total:
  "(arraysOnly ns \<longrightarrow> (\<exists>r. cleanupTaskTree ns = Inr r))"
  "(arraysOnlyNode n \<longrightarrow> (\<exists>r. cleanupElement n = Inr r))"
  "(arraysOnlyProps ps \<longrightarrow> (\<exists>r. cleanupProps ps = Inr r))"
proof (induction ns and n and ps rule: cleanupTaskTree_cleanupElement_cleanupProps.induct)
  case 1 show ?case by simp
next
  case (2 element rest)
  show ?case
  proof
    assume a: "arraysOnly (element # rest)"
    with "2.IH"(1) obtain b where b: "cleanupElement element = Inr b" by auto
    from "2.IH"(2)[OF b] a obtain r where "cleanupTaskTree rest = Inr r" by auto
    with b show "\<exists>r. cleanupTaskTree (element # rest) = Inr r" by simp
  qed
next
  case (3 props)
  then show ?case by (auto split: sum.splits)
next
  case 4 show ?case by simp
next
  case (5 key v ps)
  show ?case
  proof
    assume a: "arraysOnlyProps ((key, v) # ps)"
    then have aps: "arraysOnlyProps ps" by simp
    show "\<exists>r. cleanupProps ((key, v) # ps) = Inr r"
    proof (cases "key \<noteq> ''text'' \<and> key \<noteq> ''children''")
      case True
      with "5.IH"(1) aps show ?thesis by auto
    next
      case False
      show ?thesis
      proof (cases v)
        case (VNodes ns)
        with a False have "arraysOnly ns" by auto
        with "5.IH"(6)[OF False VNodes] obtain b where b: "cleanupTaskTree ns = Inr b" by blast
        from "5.IH"(7)[OF False VNodes b] aps obtain r where "cleanupProps ps = Inr r" by blast
        with False VNodes b show ?thesis by auto
      next
        case (VStr x)
        from "5.IH"(2)[OF False VStr] aps obtain r where "cleanupProps ps = Inr r" by blast
        with False VStr show ?thesis by auto
      next
        case (VNum x)
        from "5.IH"(3)[OF False VNum] aps obtain r where "cleanupProps ps = Inr r" by blast
        with False VNum show ?thesis by auto
      next
        case (VBool x)
        from "5.IH"(4)[OF False VBool] aps obtain r where "cleanupProps ps = Inr r" by blast
        with False VBool show ?thesis by auto
      next
        case VUndefined
        from "5.IH"(5)[OF False VUndefined] aps obtain r where "cleanupProps ps = Inr r" by blast
        with False VUndefined show ?thesis by auto
      next
        case VNull
        with a False show ?thesis by auto
      next
        case VObject
        with a False show ?thesis by auto
      qed
    qed
  qed
qed

lemma cleanup_exampleTree: "cleanupTaskTree exampleTree = Inr exampleCleanedTree"
  by (simp add: exampleTree_def exampleCleanedTree_def)

lemma parseTree_example_json:
  "parseTree exampleJsonTreeOptions (Some exampleTree) False True Map.empty
     = (Returned True, Map.empty(''tree.json'' \<mapsto> exampleCleanedTree))"
  by (simp add: parseTree_def exampleJsonTreeOptions_def cleanup_exampleTree)

section \<open>Properties of the import of tasks from a file\<close>

lemma body_with_apps:
  assumes "importApp options"
    and "importTaskFromFileBody e options = (r, tr)"
    and "TaskImportStarted apps \<in> set tr"
  shows "\<exists>tagsExisting cpExisting tasksFromFile appsFromFile m.
           getTagsFromQseow e = Inr tagsExisting
         \<and> getCustomPropertiesFromQseow e = Inr cpExisting
         \<and> loadDefinitions e options = Inr (tasksFromFile, appsFromFile)
         \<and> importAppsFromFiles e appsFromFile tagsExisting cpExisting = Inr m
         \<and> apps = Some m
         \<and> tr = [AppImportStarted, AppImportFinished m, TaskImportStarted (Some m)]
         \<and> r = (case getTaskModelFromFile e tasksFromFile tagsExisting cpExisting (Some m) of
                  Inl err \<Rightarrow> Inl err
                | Inr None \<Rightarrow> Inr RFalse
                | Inr (Some taskList) \<Rightarrow> Inr (TaskList taskList))"
proof -
  from assms(2,3) obtain tagsExisting where t: "getTagsFromQseow e = Inr tagsExisting"
    unfolding importTaskFromFileBody_def by (cases "getTagsFromQseow e") auto
  from assms(2,3) t obtain cpExisting where c: "getCustomPropertiesFromQseow e = Inr cpExisting"
    unfolding importTaskFromFileBody_def by (cases "getCustomPropertiesFromQseow e") auto
  from assms(2,3) t c have v: "verifyFileSystemExists e"
    unfolding importTaskFromFileBody_def by (cases "verifyFileSystemExists e") auto
  from assms(2,3) t c v obtain tasksFromFile appsFromFile
    where l: "loadDefinitions e options = Inr (tasksFromFile, appsFromFile)"
    unfolding importTaskFromFileBody_def by (cases "loadDefinitions e options") auto
  from assms t c v l obtain m
    where a: "importAppsFromFiles e appsFromFile tagsExisting cpExisting = Inr m"
    unfolding importTaskFromFileBody_def
    by (cases "importAppsFromFiles e appsFromFile tagsExisting cpExisting") auto
  from assms(1,2) t c v l a
  have tr: "tr = [AppImportStarted, AppImportFinished m, TaskImportStarted (Some m)]"
    and r: "r = (case getTaskModelFromFile e tasksFromFile tagsExisting cpExisting (Some m) of
                  Inl err \<Rightarrow> Inl err
                | Inr None \<Rightarrow> Inr RFalse
                | Inr (Some taskList) \<Rightarrow> Inr (TaskList taskList))"
    unfolding importTaskFromFileBody_def
    by (auto split: sum.splits option.splits)
  from tr assms(3) have "apps = Some m" by simp
  with t c l a tr r show ?thesis by blast
qed

lemma load_missing:
  "loadDefinitions exampleEnv missingSheetOptions
     = Inl (Thrown ''EXCEL IMPORT: Can't find sheet Missing in file tasks.xlsx'')"
  by (simp add: loadDefinitions_def missingSheetOptions_def exampleEnv_def
      exampleTaskSheet_def exampleAppSheet_def)

lemma exampleEnv_sel:
  "getTagsFromQseow exampleEnv = Inr [''tag1'']"
  "getCustomPropertiesFromQseow exampleEnv = Inr []"
  "verifyFileSystemExists exampleEnv"
  "importAppsFromFiles exampleEnv = exampleImportApps"
  "getTaskModelFromFile exampleEnv = exampleGetTaskModel"
  by (simp_all add: exampleEnv_def)

lemma parseInt_1: "parseInt ''1'' = Num 1"
  by (simp add: parseInt_def isWhiteSpace_def isDigit_def roundToDouble_def)

lemma limit_example_excel:
  "limitTasks integerToNumber exampleExcelOptions exampleTaskSheet
     = Inr (exampleTaskSheet\<lparr>data := take 3 (data exampleTaskSheet)\<rparr>)"
proof -
  have l: "limitImportCount exampleExcelOptions = ''1''" by (simp add: exampleExcelOptions_def)
  show ?thesis
    unfolding limitTasks_def l parseInt_1
    by (simp add: exampleTaskSheet_def exampleHeader_def
      getTaskColumnPosFromHeaderRow_def lookupCol_def elemAt_def
      gtNum_def leNum_def toNumberCell_def)
qed

lemma load_example_excel:
  "loadDefinitions exampleEnv exampleExcelOptions
     = Inr (Some (exampleTaskSheet\<lparr>data := take 3 (data exampleTaskSheet)\<rparr>), Some exampleAppSheet)"
proof -
  have o: "fileType exampleExcelOptions = ''excel''" "sheetName exampleExcelOptions = ''Tasks''"
    "importApp exampleExcelOptions" "importAppSheetName exampleExcelOptions = ''Apps''"
    by (simp_all add: exampleExcelOptions_def)
  have e: "xlsxParse exampleEnv = [exampleTaskSheet, exampleAppSheet]"
    "engineToNumber exampleEnv = integerToNumber"
    by (simp_all add: exampleEnv_def)
  have n: "wsName exampleTaskSheet = ''Tasks''" "wsName exampleAppSheet = ''Apps''"
    by (simp_all add: exampleTaskSheet_def exampleAppSheet_def)
  show ?thesis
    unfolding loadDefinitions_def e
    by (simp add: o n limit_example_excel)
qed

text \<open>
  The limit refills the sheet of tasks in place: a run that asks for that sheet as the
  sheet of apps as well gets the limited rows for both.
\<close>

lemma load_same_sheet:
  "loadDefinitions exampleEnv sameSheetOptions
     = Inr (Some (exampleTaskSheet\<lparr>data := take 3 (data exampleTaskSheet)\<rparr>),
            Some (exampleTaskSheet\<lparr>data := take 3 (data exampleTaskSheet)\<rparr>))"
  by code_simp

lemma import_example_excel:
  "importTaskFromFile exampleEnv exampleExcelOptions
     = (Returned (TaskList [''task-guid-1'']),
        [AppImportStarted, AppImportFinished [(1, ''app-guid-1'')],
         TaskImportStarted (Some [(1, ''app-guid-1'')])])"
  by (simp add: importTaskFromFile_def importTaskFromFileBody_def load_example_excel exampleEnv_sel
      exampleImportApps_def exampleGetTaskModel_def)
     (simp add: exampleExcelOptions_def)

section \<open>Properties of the reading of a delimited-text source\<close>

lemma fieldLines_snd: "map snd (fieldLines n l) = l"
  by (induction l arbitrary: n) simp_all

lemma fieldLines_fst_ge: "f \<in> set (fieldLines n l) \<Longrightarrow> n \<le> fst f"
proof (induction l arbitrary: n)
  case Nil then show ?case by simp
next
  case (Cons v vs)
  from Cons.prems have "f = (n + lineBreaks v, v) \<or> f \<in> set (fieldLines (n + lineBreaks v) vs)"
    by simp
  then show ?case
  proof
    assume "f = (n + lineBreaks v, v)" then show ?thesis by simp
  next
    assume "f \<in> set (fieldLines (n + lineBreaks v) vs)"
    from Cons.IH[OF this] show ?thesis by simp
  qed
qed

lemma fieldLines_no_breaks: "\<forall>f \<in> set l. lineBreaks f = 0 \<Longrightarrow> fieldLines n l = map (Pair n) l"
  by (induction l arbitrary: n) simp_all

lemma sum_lineBreaks_0: "\<forall>f \<in> set l. lineBreaks f = 0 \<Longrightarrow> sum_list (map lineBreaks l) = 0"
  by (induction l) simp_all

lemma parseLines_ge:
  "r \<in> set (parseLines n ls) \<Longrightarrow> n \<le> fst r \<and> (\<forall>f \<in> set (snd r). n \<le> fst f)"
proof (induction ls arbitrary: n)
  case Nil then show ?case by simp
next
  case (Cons l ls)
  show ?case
  proof (cases "l = []")
    case True
    with Cons.prems have "r \<in> set (parseLines (Suc n) ls)" by simp
    from Cons.IH[OF this] show ?thesis by auto
  next
    case False
    let ?m = "n + sum_list (map lineBreaks l)"
    from False Cons.prems
    have "r = (?m, fieldLines n l) \<or> r \<in> set (parseLines (Suc ?m) ls)" by simp
    then show ?thesis
    proof
      assume r: "r = (?m, fieldLines n l)"
      have "\<forall>f \<in> set (fieldLines n l). n \<le> fst f" using fieldLines_fst_ge by blast
      with r show ?thesis by simp
    next
      assume "r \<in> set (parseLines (Suc ?m) ls)"
      from Cons.IH[OF this] show ?thesis by auto
    qed
  qed
qed

lemma parseLines_no_header: "2 \<le> n \<Longrightarrow> filter (\<lambda>r. fst r = Suc 0) (parseLines n ls) = []"
proof -
  assume n: "2 \<le> n"
  have "\<forall>r \<in> set (parseLines n ls). \<not> fst r = Suc 0"
  proof
    fix r assume "r \<in> set (parseLines n ls)"
    from parseLines_ge[OF this] n show "\<not> fst r = Suc 0" by simp
  qed
  then show ?thesis by (simp add: filter_empty_conv)
qed

lemma sameFieldCount_Cons:
  "header \<noteq> [] \<Longrightarrow>
     sameFieldCount (header # rest) = (\<forall>l \<in> set rest. l = [] \<or> length l = length header)"
  by (auto simp: sameFieldCount_def list_all_iff)

lemma parseLines_Cons:
  assumes "header \<noteq> []" and "\<forall>f \<in> set header. lineBreaks f = 0"
  shows "parseLines (Suc 0) (header # rest) = (Suc 0, map (Pair (Suc 0)) header) # parseLines 2 rest"
  using assms(1) by (simp add: sum_lineBreaks_0[OF assms(2)] fieldLines_no_breaks[OF assms(2)]
      numeral_2_eq_2)

lemma parse_Cons:
  assumes "header \<noteq> []" and "\<forall>f \<in> set header. lineBreaks f = 0"
  shows "parse (header # rest) =
           (if \<forall>l \<in> set rest. l = [] \<or> length l = length header
            then Inr ((Suc 0, map (Pair (Suc 0)) header) # parseLines 2 rest)
            else Inl CsvError)"
  unfolding parse_def sameFieldCount_Cons[OF assms(1)]
  by (simp only: One_nat_def parseLines_Cons[OF assms])

lemma getHeaders_first_line:
  assumes "header \<noteq> []" and "\<forall>f \<in> set header. lineBreaks f = 0"
  shows "getHeaders (header # rest) =
           (if \<forall>l \<in> set rest. l = [] \<or> length l = length header then Inr [header]
            else Inl CsvError)"
  unfolding getHeaders_def parse_Cons[OF assms]
  by (simp add: parseLines_no_header comp_def)

lemma getHeaders_empty_first_line:
  "getHeaders ([] # rest) = (if sameFieldCount rest then Inr [] else Inl CsvError)"
  by (simp add: getHeaders_def parse_def sameFieldCount_def parseLines_no_header
      numeral_2_eq_2[symmetric])

lemma castFields_header: "castFields isNumeric ch c (map (Pair (Suc 0)) vs) = Inr (map CStr vs)"
  by (induction vs arbitrary: c) (simp_all add: cast_def)

lemma cast_line_indep:
  "l \<noteq> 1 \<Longrightarrow> l' \<noteq> 1 \<Longrightarrow> cast isNumeric ch l c v = cast isNumeric ch l' c v"
  unfolding cast_def by (simp only: if_False)

lemma castFields_line_indep:
  "\<forall>f \<in> set fs. fst f \<noteq> 1 \<Longrightarrow>
     castFields isNumeric ch c fs = castFields isNumeric ch c (dataFields (map snd fs))"
proof (induction fs arbitrary: c)
  case Nil show ?case by (simp add: dataFields_def)
next
  case (Cons f fs)
  from Cons.prems have f1: "fst f \<noteq> 1" and fs1: "\<forall>f \<in> set fs. fst f \<noteq> 1" by auto
  have two: "(2::nat) \<noteq> 1" by simp
  have a: "cast isNumeric ch (fst f) c (snd f) = cast isNumeric ch 2 c (snd f)"
    by (rule cast_line_indep[OF f1 two])
  have b: "castFields isNumeric ch (Suc c) fs
             = castFields isNumeric ch (Suc c) (dataFields (map snd fs))"
    by (rule Cons.IH[OF fs1])
  have d: "dataFields (map snd (f # fs)) = (2, snd f) # dataFields (map snd fs)"
    by (simp add: dataFields_def)
  show ?case unfolding d castFields.simps a b by simp
qed

lemma castFields_nth:
  "castFields isNumeric ch c (dataFields vs) = Inr cs \<Longrightarrow>
     length cs = length vs \<and> (\<forall>i < length vs. cast isNumeric ch 2 (c + i) (vs ! i) = Inr (cs ! i))"
proof (induction vs arbitrary: c cs)
  case Nil then show ?case by (simp add: dataFields_def)
next
  case (Cons v vs)
  have d: "dataFields (v # vs) = (2, v) # dataFields vs" by (simp add: dataFields_def)
  from Cons.prems obtain x xs where x: "cast isNumeric ch 2 c v = Inr x"
    and xs: "castFields isNumeric ch (Suc c) (dataFields vs) = Inr xs" and cs: "cs = x # xs"
    unfolding d by (auto split: sum.splits)
  from Cons.IH[OF xs] have ih: "length xs = length vs"
    "\<forall>i < length vs. cast isNumeric ch 2 (Suc c + i) (vs ! i) = Inr (xs ! i)" by auto
  show ?case
  proof (intro conjI allI impI)
    show "length cs = length (v # vs)" using cs ih by simp
    fix i assume "i < length (v # vs)"
    then show "cast isNumeric ch 2 (c + i) ((v # vs) ! i) = Inr (cs ! i)"
      using x ih cs by (cases i) auto
  qed
qed

lemma cast_counter_column:
  assumes "l \<noteq> 1" and "int c = pos (taskCounter ch)" and "cast isNumeric ch l c v = Inr x"
  shows "x = CNum (parseInt v)"
  using assms by (auto simp: cast_def castTaskCounter_def split: if_splits)

lemma counter_of_cast_row:
  assumes "castFields isNumeric ch 0 (dataFields vs) = Inr cs"
  shows "toNumberCell toNumber (elemAt cs (pos (taskCounter ch))) = taskCounterOf (pos (taskCounter ch)) vs"
proof (cases "0 \<le> pos (taskCounter ch) \<and> pos (taskCounter ch) < int (length vs)")
  case True
  let ?p = "pos (taskCounter ch)"
  from castFields_nth[OF assms] have len: "length cs = length vs"
    and nth: "\<forall>i < length vs. cast isNumeric ch 2 (0 + i) (vs ! i) = Inr (cs ! i)" by auto
  from True have i: "nat ?p < length vs" and ip: "int (nat ?p) = ?p" by auto
  have two: "(2::nat) \<noteq> 1" by simp
  from nth i have "cast isNumeric ch 2 (nat ?p) (vs ! nat ?p) = Inr (cs ! nat ?p)" by simp
  from cast_counter_column[OF two ip this] have "cs ! nat ?p = CNum (parseInt (vs ! nat ?p))" .
  with True len show ?thesis
    by (simp add: elemAt_def taskCounterOf_def toNumberCell_def)
next
  case False
  from castFields_nth[OF assms] have "length cs = length vs" by simp
  with False show ?thesis by (auto simp: elemAt_def taskCounterOf_def toNumberCell_def)
qed

lemma collectRecords_filter:
  "collectRecords toNumber limit p recs acc =
     acc @ map snd (filter (\<lambda>r. fst r = 1 \<or> \<not> gtNum limit 0
                              \<or> leNum (toNumberCell toNumber (elemAt (snd r) p)) limit) recs)"
  by (induction recs arbitrary: acc) simp_all


lemma list_all2_filter:
  "list_all2 (\<lambda>x y. R x y \<and> (P x \<longleftrightarrow> Q y)) xs ys \<Longrightarrow> list_all2 R (filter P xs) (filter Q ys)"
  by (induction xs ys rule: list_all2_induct) auto

lemma castRecords_data:
  assumes "castRecords isNumeric ch recs = Inr crecs"
    and "\<forall>r \<in> set recs. fst r \<noteq> 1 \<and> (\<forall>f \<in> set (snd r). fst f \<noteq> 1)"
  shows "list_all2 (\<lambda>r c. castFields isNumeric ch 0 (dataFields (map snd (snd r))) = Inr (snd c)
            \<and> fst c \<noteq> 1
            \<and> toNumberCell toNumber (elemAt (snd c) (pos (taskCounter ch)))
                = taskCounterOf (pos (taskCounter ch)) (map snd (snd r))) recs crecs"
  using assms
proof (induction recs arbitrary: crecs)
  case Nil then show ?case by simp
next
  case (Cons r rs)
  from Cons.prems(1) obtain cs xs where cs: "castFields isNumeric ch 0 (snd r) = Inr cs"
    and xs: "castRecords isNumeric ch rs = Inr xs" and c: "crecs = (fst r, cs) # xs"
    by (auto split: sum.splits)
  from Cons.prems(2) have r1: "fst r \<noteq> 1" and f1: "\<forall>f \<in> set (snd r). fst f \<noteq> 1"
    and rs1: "\<forall>r \<in> set rs. fst r \<noteq> 1 \<and> (\<forall>f \<in> set (snd r). fst f \<noteq> 1)" by auto
  from cs castFields_line_indep[OF f1]
  have cs2: "castFields isNumeric ch 0 (dataFields (map snd (snd r))) = Inr cs" by metis
  have cnt: "toNumberCell toNumber (elemAt cs (pos (taskCounter ch)))
               = taskCounterOf (pos (taskCounter ch)) (map snd (snd r))"
    by (rule counter_of_cast_row[OF cs2])
  from Cons.IH[OF xs rs1] cs2 cnt r1 c show ?case by simp
qed

lemma filter_parseLines:
  "map (\<lambda>r. map snd (snd r)) (filter (\<lambda>r. P (map snd (snd r))) (parseLines n ls))
     = filter (\<lambda>l. l \<noteq> [] \<and> P l) ls"
  by (induction ls arbitrary: n) (simp_all add: fieldLines_snd)

lemma processCsvFile_rows:
  assumes h: "header \<noteq> []" and nb: "\<forall>f \<in> set header. lineBreaks f = 0"
    and ok: "processCsvFile isNumeric toNumber options (header # rest) = Inr rows"
  shows "\<exists>dataRows. rows = map CStr header # dataRows
     \<and> list_all2 (\<lambda>raw row. castFields isNumeric (getTaskColumnPosFromHeaderRow (map CStr header)) 0 (dataFields raw) = Inr row
                      \<and> toNumberCell toNumber (elemAt row (pos (taskCounter (getTaskColumnPosFromHeaderRow (map CStr header)))))
                          = taskCounterOf (pos (taskCounter (getTaskColumnPosFromHeaderRow (map CStr header)))) raw)
         (filter (\<lambda>raw. raw \<noteq> []
                    \<and> (\<not> gtNum (parseInt (limitImportCount options)) 0
                        \<or> leNum (taskCounterOf (pos (taskCounter (getTaskColumnPosFromHeaderRow (map CStr header)))) raw)
                                 (parseInt (limitImportCount options)))) rest)
         dataRows"
proof -
  let ?ch = "getTaskColumnPosFromHeaderRow (map CStr header)"
  let ?p = "pos (taskCounter ?ch)"
  let ?limit = "parseInt (limitImportCount options)"
  let ?raw = "\<lambda>r::nat \<times> (nat \<times> string) list. map snd (snd r)"
  let ?keepC = "\<lambda>c::nat \<times> cell list. fst c = 1 \<or> \<not> gtNum ?limit 0
                   \<or> leNum (toNumberCell toNumber (elemAt (snd c) ?p)) ?limit"
  let ?keepR = "\<lambda>raw. \<not> gtNum ?limit 0 \<or> leNum (taskCounterOf ?p raw) ?limit"
  let ?R = "\<lambda>raw row. castFields isNumeric ?ch 0 (dataFields raw) = Inr row
              \<and> toNumberCell toNumber (elemAt row ?p) = taskCounterOf ?p raw"
  let ?same = "\<forall>l \<in> set rest. l = [] \<or> length l = length header"
  have gh: "getHeaders (header # rest) = (if ?same then Inr [header] else Inl CsvError)"
    by (rule getHeaders_first_line[OF h nb])
  have pc: "parse (header # rest) =
              (if ?same then Inr ((Suc 0, map (Pair (Suc 0)) header) # parseLines 2 rest)
               else Inl CsvError)"
    by (rule parse_Cons[OF h nb])
  from ok have same: "?same" unfolding processCsvFile_def gh by (auto split: if_splits)
  from ok obtain crecs
    where cr: "castRecords isNumeric ?ch ((Suc 0, map (Pair (Suc 0)) header) # parseLines 2 rest) = Inr crecs"
    and rows: "rows = collectRecords toNumber ?limit ?p crecs []"
    unfolding processCsvFile_def gh pc using same by (auto simp: Let_def split: sum.splits)
  from cr obtain hc drecs where hc: "castFields isNumeric ?ch 0 (map (Pair (Suc 0)) header) = Inr hc"
    and dr: "castRecords isNumeric ?ch (parseLines 2 rest) = Inr drecs"
    and crecs: "crecs = (1, hc) # drecs"
    by (auto split: sum.splits)
  from hc have hc': "hc = map CStr header" unfolding castFields_header by simp
  have no1: "\<forall>r \<in> set (parseLines 2 rest). fst r \<noteq> 1 \<and> (\<forall>f \<in> set (snd r). fst f \<noteq> 1)"
  proof
    fix r assume "r \<in> set (parseLines 2 rest)"
    from parseLines_ge[OF this] show "fst r \<noteq> 1 \<and> (\<forall>f \<in> set (snd r). fst f \<noteq> 1)" by auto
  qed
  from castRecords_data[OF dr no1, of toNumber]
  have all2: "list_all2 (\<lambda>r c. ?R (?raw r) (snd c) \<and> fst c \<noteq> 1) (parseLines 2 rest) drecs"
    by (rule list_all2_mono) auto
  have "list_all2 (\<lambda>r c. ?R (?raw r) (snd c) \<and> (?keepR (?raw r) \<longleftrightarrow> ?keepC c)) (parseLines 2 rest) drecs"
    using all2 by (rule list_all2_mono) auto
  then have "list_all2 (\<lambda>r c. ?R (?raw r) (snd c))
               (filter (\<lambda>r. ?keepR (?raw r)) (parseLines 2 rest)) (filter ?keepC drecs)"
    by (rule list_all2_filter)
  then have "list_all2 ?R (map ?raw (filter (\<lambda>r. ?keepR (?raw r)) (parseLines 2 rest)))
               (map snd (filter ?keepC drecs))"
    by (simp add: list_all2_map1 list_all2_map2)
  moreover have "map ?raw (filter (\<lambda>r. ?keepR (?raw r)) (parseLines 2 rest))
                   = filter (\<lambda>l. l \<noteq> [] \<and> ?keepR l) rest"
    by (rule filter_parseLines)
  ultimately have d: "list_all2 ?R (filter (\<lambda>l. l \<noteq> [] \<and> ?keepR l) rest) (map snd (filter ?keepC drecs))"
    by (rule subst[where P="\<lambda>xs. list_all2 ?R xs (map snd (filter ?keepC drecs))", rotated])
  have "rows = hc # map snd (filter ?keepC drecs)"
    unfolding rows crecs collectRecords_filter by simp
  with hc' d show ?thesis by blast
qed


lemma processCsvFile_example:
  "processCsvFile digitsOnly integerToNumber exampleOptions exampleCsv = Inr exampleRows"
  by code_simp

lemma exampleHeader_on_first_line:
  "exampleHeader \<noteq> []"
  "\<forall>f \<in> set exampleHeader. lineBreaks f = 0"
  by code_simp+

lemma exampleHeader_lineBreaks: "map lineBreaks exampleHeader = [0, 0, 0, 0, 0, 0]"
  by code_simp








text \<open>
  The Task counter of a row is compared as the double that \<open>parseInt\<close> gives: a field
  that reads 9007199254740993 is within a limit of 9007199254740992.
\<close>

lemma counter_rounded_to_double:
  "parseInt ''9007199254740993'' = Num 9007199254740992"
  "withinLimit 9007199254740992 (taskCounterOf 0 [''9007199254740993''])"
  by code_simp+

text \<open>
  A header record with a line break inside a quoted field ends on line 2: no record has
  \<open>info.lines\<close> 1 and \<open>getHeaders\<close> returns no row.
\<close>

lemma header_over_two_lines:
  "getHeaders [[''Task'' @ [CHR 0x0A] @ ''counter'', ''Task type''], [''1'', ''Reload'']] = Inr []"
  by code_simp

text \<open>
  Claim C5. In a delimited-text source, a cell of a boolean column (Task enabled, Partial
  reload, Manually triggered, Event enabled) on a line other than the header line is
  coerced to \<open>true\<close> exactly when it is the string \<open>1\<close>, to \<open>false\<close> exactly when it is
  the string \<open>0\<close> or trims to the empty string, and any other cell ends the process
  with exit code 1.
\<close>

theorem boolean_column_coercion:
  assumes "ch = getTaskColumnPosFromHeaderRow headerRow"
    and "lines \<noteq> 1"
    and "int column = pos (taskEnabled ch) \<or> int column = pos (isPartialReload ch)
         \<or> int column = pos (isManuallyTriggered ch) \<or> int column = pos (eventEnabled ch)"
  shows "(cast isNumeric ch lines column v = Inr (CBool True) \<longleftrightarrow> v = ''1'')
       \<and> (cast isNumeric ch lines column v = Inr (CBool False) \<longleftrightarrow> v = ''0'' \<or> trim v = '''')
       \<and> (v \<noteq> ''1'' \<and> v \<noteq> ''0'' \<and> trim v \<noteq> '''' \<longrightarrow>
            cast isNumeric ch lines column v = Inl (ProcessExit 1))"
proof -
  let ?h = "getTaskColumnPosFromHeaderRow headerRow"
  have sel: "pos (taskEnabled ?h) = pos (lookupCol headerRow ''Task enabled'')"
    "pos (isPartialReload ?h) = pos (lookupCol headerRow ''Partial reload'')"
    "pos (isManuallyTriggered ?h) = pos (lookupCol headerRow ''Manually triggered'')"
    "pos (eventEnabled ?h) = pos (lookupCol headerRow ''Event enabled'')"
    by (simp_all add: getTaskColumnPosFromHeaderRow_def)
  have "cast isNumeric ?h lines column v = cast01 v"
    using assms(3) unfolding assms(1) sel
    using cast_taskEnabled[OF _ assms(2)] cast_isPartialReload[OF _ assms(2)]
      cast_isManuallyTriggered[OF _ assms(2)] cast_eventEnabled[OF _ assms(2)]
    by blast
  then have "cast isNumeric ch lines column v = cast01 v" by (simp add: assms(1))
  then show ?thesis
    using cast01_true[of v] cast01_false[of v] cast01_exit[of v] by simp
qed

theorem boolean_column_coercion_witness:
  "cast digitsOnly exampleColHeaders 2 4 ''1'' = Inr (CBool True)
   \<and> cast digitsOnly exampleColHeaders 2 4 ''0'' = Inr (CBool False)
   \<and> cast digitsOnly exampleColHeaders 2 4 ''  '' = Inr (CBool False)
   \<and> cast digitsOnly exampleColHeaders 2 4 ''yes'' = Inl (ProcessExit 1)"
proof -
  have c: "int 4 = pos (taskEnabled exampleColHeaders) \<or> int 4 = pos (isPartialReload exampleColHeaders)
         \<or> int 4 = pos (isManuallyTriggered exampleColHeaders) \<or> int 4 = pos (eventEnabled exampleColHeaders)"
    by (simp add: exampleColHeaders_pos)
  have l: "(2::nat) \<noteq> 1" by simp
  have t: "trim ''  '' = ''''" "trim ''yes'' \<noteq> ''''"
    by (simp_all add: trim_def isWhiteSpace_def)
  show ?thesis
    using boolean_column_coercion[OF exampleColHeaders_def l c, of digitsOnly "''1''"]
      boolean_column_coercion[OF exampleColHeaders_def l c, of digitsOnly "''0''"]
      boolean_column_coercion[OF exampleColHeaders_def l c, of digitsOnly "''  ''"]
      boolean_column_coercion[OF exampleColHeaders_def l c, of digitsOnly "''yes''"] t
    by simp
qed

text \<open>
  Claim C7, as amended. The type coercion of the Task timeout column accepts an empty cell
  and a numeric cell whose integer is greater than 0 (it is Infinity when the digits are
  too many for a double), and nothing else: a cell holding \<open>0\<close> ends the process with
  exit code 1.
\<close>

theorem task_timeout_coercion:
  assumes "ch = getTaskColumnPosFromHeaderRow headerRow"
    and "lines \<noteq> 1"
    and "int column = pos (taskSessionTimeout ch)"
  shows "cast isNumeric ch lines column ''0'' = Inl (ProcessExit 1)
       \<and> (cast isNumeric ch lines column v = Inr c \<longleftrightarrow>
            (trim v = '''' \<and> c = CStr '''')
            \<or> (trim v \<noteq> '''' \<and> isNumeric v
                 \<and> ((\<exists>n. parseInt v = Num n \<and> 0 < n \<and> c = CNum (Num n))
                      \<or> (parseInt v = PosInf \<and> c = CNum PosInf))))"
proof -
  have p: "int column = pos (lookupCol headerRow ''Task timeout'')"
    using assms(3) by (simp add: assms(1) getTaskColumnPosFromHeaderRow_def)
  have "\<And>w. cast isNumeric ch lines column w = castGt0 isNumeric w"
    unfolding assms(1) by (rule cast_taskSessionTimeout[OF p assms(2)])
  then show ?thesis using castGt0_zero castGt0_accepts by simp
qed

theorem task_timeout_coercion_witness:
  "cast digitsOnly exampleColHeaders 2 5 ''0'' = Inl (ProcessExit 1)
   \<and> cast digitsOnly exampleColHeaders 2 5 ''1440'' = Inr (CNum (Num 1440))"
proof -
  have l: "(2::nat) \<noteq> 1" by simp
  have c: "int 5 = pos (taskSessionTimeout exampleColHeaders)" by (simp add: exampleColHeaders_pos)
  have v: "trim ''1440'' \<noteq> ''''" "digitsOnly ''1440''" "parseInt ''1440'' = Num 1440"
    by (simp_all add: trim_def isWhiteSpace_def digitsOnly_def isDigit_def parseInt_def
        roundToDouble_def)
  show ?thesis
    using task_timeout_coercion[OF exampleColHeaders_def l c, of digitsOnly "''1440''" "CNum (Num 1440)"] v
    by simp
qed

text \<open>
  The claim as stated fails: in the example header the Task timeout column is column 5,
  and the cell \<open>0\<close> on line 2 is refused.
\<close>

theorem task_timeout_zero_counterexample:
  "cast digitsOnly exampleColHeaders 2 5 ''0'' = Inl (ProcessExit 1)"
  by (simp add: cast_def exampleColHeaders_pos castGt0_zero)

text \<open>
  Claim C3, as amended. The de-duplicated list of circular task chains holds every ordered
  pair (id of \<open>fromTask\<close>, id of \<open>toTask\<close>) of the detected chains exactly once, and
  nothing that was not detected. A pair and its reverse are two pairs.
\<close>

theorem circular_chains_deduplicated_by_ordered_pair:
  "distinct (map endpoints (deduplicatedCircularTaskChain cs))
   \<and> set (map endpoints (deduplicatedCircularTaskChain cs)) = set (map endpoints cs)
   \<and> set (deduplicatedCircularTaskChain cs) \<subseteq> set cs"
proof (intro conjI)
  let ?Q = "\<lambda>i. findIndex (sameEndpoints (cs ! i)) cs = int i"
  let ?is = "filter ?Q [0..<length cs]"
  have d: "deduplicatedCircularTaskChain cs = map (\<lambda>i. cs ! i) ?is" by (rule dedup_nth)
  have inj: "inj_on (\<lambda>i. endpoints (cs ! i)) (set ?is)"
  proof (rule inj_onI)
    fix i j assume i: "i \<in> set ?is" and j: "j \<in> set ?is"
      and e: "endpoints (cs ! i) = endpoints (cs ! j)"
    from i have "findIndex (sameEndpoints (cs ! i)) cs = int i" by simp
    moreover from j have "findIndex (sameEndpoints (cs ! j)) cs = int j" by simp
    moreover have "sameEndpoints (cs ! i) = sameEndpoints (cs ! j)" by (rule sameEndpoints_eq[OF e])
    ultimately have "int i = int j" by metis
    then show "i = j" by (simp only: of_nat_eq_iff)
  qed
  have "distinct (map (\<lambda>i. endpoints (cs ! i)) ?is)"
    using inj by (simp add: distinct_map)
  then show "distinct (map endpoints (deduplicatedCircularTaskChain cs))"
    by (simp add: d comp_def)
  show sub: "set (deduplicatedCircularTaskChain cs) \<subseteq> set cs"
    by (auto simp: d)
  show "set (map endpoints (deduplicatedCircularTaskChain cs)) = set (map endpoints cs)"
  proof
    show "set (map endpoints (deduplicatedCircularTaskChain cs)) \<subseteq> set (map endpoints cs)"
      using sub by auto
    show "set (map endpoints cs) \<subseteq> set (map endpoints (deduplicatedCircularTaskChain cs))"
    proof
      fix e assume "e \<in> set (map endpoints cs)"
      then obtain c where c: "c \<in> set cs" "e = endpoints c" by auto
      have "sameEndpoints c c" by (simp add: sameEndpoints_def)
      from findIndex_exists[of c cs "sameEndpoints c", OF c(1) this] obtain i where i: "findIndex (sameEndpoints c) cs = int i" by blast
      from findIndex_found[OF i] have il: "i < length cs" and s: "sameEndpoints c (cs ! i)" by auto
      from s have ee: "endpoints (cs ! i) = endpoints c" by (simp add: sameEndpoints_iff)
      then have "sameEndpoints (cs ! i) = sameEndpoints c" by (rule sameEndpoints_eq)
      with i have "?Q i" by metis
      with il have "i \<in> set ?is" by simp
      then have "cs ! i \<in> set (deduplicatedCircularTaskChain cs)" unfolding d set_map by (rule imageI)
      then have "endpoints (cs ! i) \<in> set (map endpoints (deduplicatedCircularTaskChain cs))" by simp
      with ee c show "e \<in> set (map endpoints (deduplicatedCircularTaskChain cs))" by simp
    qed
  qed
qed

text \<open>
  The claim as stated fails: a chain from A to B and a chain from B to A have the same
  unordered endpoints, and both are reported.
\<close>

theorem circular_chains_both_directions_counterexample:
  "deduplicatedCircularTaskChain [chainAB, chainBA] = [chainAB, chainBA]
   \<and> unorderedEndpoints chainAB = unorderedEndpoints chainBA"
  by (simp add: deduplicatedCircularTaskChain_def filterIndexed_def chainAB_def chainBA_def
      unorderedEndpoints_def upt_rec insert_commute)

text \<open>
  Claim C10. When \<open>cleanupTaskTree\<close> has been applied to a task tree, every node of the
  resulting tree, at every depth, has no property other than \<open>text\<close> and \<open>children\<close>. It
  succeeds on every tree whose \<open>text\<close> and \<open>children\<close> hold primitives and arrays of
  nodes, and the tree that \<open>parseTree\<close> writes to a JSON file is the cleaned one.
\<close>

theorem cleanupTaskTree_keeps_text_and_children:
  "(cleanupTaskTree taskTree = Inr cleaned \<longrightarrow> onlyTextAndChildren cleaned)
   \<and> (arraysOnly taskTree \<longrightarrow> (\<exists>r. cleanupTaskTree taskTree = Inr r))
   \<and> (parseTree options (Some taskTree) fileExists ok files = (Returned True, files')
        \<and> outputDest options = ''file'' \<longrightarrow>
          (\<exists>buffer. files' = files(outputFileName options \<mapsto> buffer)
             \<and> cleanupTaskTree taskTree = Inr buffer \<and> onlyTextAndChildren buffer))"
proof (intro conjI impI)
  assume "cleanupTaskTree taskTree = Inr cleaned"
  then show "onlyTextAndChildren cleaned" using cleanup_only(1) by blast
next
  assume "arraysOnly taskTree"
  then show "\<exists>r. cleanupTaskTree taskTree = Inr r" using cleanup_total(1) by blast
next
  assume a: "parseTree options (Some taskTree) fileExists ok files = (Returned True, files') \<and> outputDest options = ''file''"
  then obtain buffer where b: "cleanupTaskTree taskTree = Inr buffer"
    and f: "files' = files(outputFileName options \<mapsto> buffer)"
    by (auto simp: parseTree_def split: if_splits sum.splits)
  from b have "onlyTextAndChildren buffer" using cleanup_only(1) by blast
  with b f show "\<exists>buffer. files' = files(outputFileName options \<mapsto> buffer)
             \<and> cleanupTaskTree taskTree = Inr buffer \<and> onlyTextAndChildren buffer" by blast
qed

theorem cleanupTaskTree_keeps_text_and_children_witness:
  "arraysOnly exampleTree
   \<and> cleanupTaskTree exampleTree = Inr exampleCleanedTree
   \<and> onlyTextAndChildren exampleCleanedTree
   \<and> parseTree exampleJsonTreeOptions (Some exampleTree) False True Map.empty
        = (Returned True, Map.empty(''tree.json'' \<mapsto> exampleCleanedTree))
   \<and> outputDest exampleJsonTreeOptions = ''file''"
proof -
  have a: "arraysOnly exampleTree" by (simp add: exampleTree_def)
  have d: "outputDest exampleJsonTreeOptions = ''file''" by (simp add: exampleJsonTreeOptions_def)
  from cleanupTaskTree_keeps_text_and_children
         [of exampleTree exampleCleanedTree exampleJsonTreeOptions False True Map.empty
             "Map.empty(''tree.json'' \<mapsto> exampleCleanedTree)"]
  have "onlyTextAndChildren exampleCleanedTree"
    using cleanup_exampleTree by blast
  with a d cleanup_exampleTree parseTree_example_json show ?thesis by blast
qed

text \<open>
  Claim C9, as amended. With output format tree and output destination file, once the
  task tree has been assembled: for every output file format other than json,
  \<open>parseTree\<close> ends the process with exit code 1 and leaves the files as they were; and
  whenever \<open>parseTree\<close> changes a file, the output file format is json. When a sub
  tree cannot be had, \<open>parseTree\<close> returns \<open>false\<close> and leaves the files as they were,
  whatever the format.
\<close>

theorem tree_file_output_json_only:
  "(outputDest options = ''file'' \<and> outputFileFormat options \<noteq> ''json'' \<longrightarrow>
      parseTree options (Some taskTree) fileExists ok files = (Exited 1, files))
   \<and> (outputDest options = ''file'' \<and> parseTree options assembled fileExists ok files = (out, files')
        \<and> files' \<noteq> files \<longrightarrow> outputFileFormat options = ''json'')
   \<and> parseTree options None fileExists ok files = (Returned False, files)"
  by (auto simp: parseTree_def split: if_splits sum.splits option.splits)

theorem tree_file_output_json_only_witness:
  "outputDest exampleCsvTreeOptions = ''file''
   \<and> outputFileFormat exampleCsvTreeOptions \<noteq> ''json''
   \<and> parseTree exampleCsvTreeOptions (Some exampleTree) False True Map.empty = (Exited 1, Map.empty)
   \<and> outputDest exampleJsonTreeOptions = ''file''
   \<and> parseTree exampleJsonTreeOptions (Some exampleTree) False True Map.empty
        = (Returned True, Map.empty(''tree.json'' \<mapsto> exampleCleanedTree))
   \<and> Map.empty(''tree.json'' \<mapsto> exampleCleanedTree) \<noteq> Map.empty
   \<and> outputFileFormat exampleJsonTreeOptions = ''json''"
proof -
  have c: "outputDest exampleCsvTreeOptions = ''file''" "outputFileFormat exampleCsvTreeOptions \<noteq> ''json''"
    by (simp_all add: exampleCsvTreeOptions_def)
  have j: "outputDest exampleJsonTreeOptions = ''file''"
    by (simp add: exampleJsonTreeOptions_def)
  have n: "Map.empty(''tree.json'' \<mapsto> exampleCleanedTree) \<noteq> Map.empty"
    by simp
  from tree_file_output_json_only[of exampleCsvTreeOptions exampleTree False True Map.empty] c
  have e: "parseTree exampleCsvTreeOptions (Some exampleTree) False True Map.empty = (Exited 1, Map.empty)"
    by blast
  from tree_file_output_json_only
         [of exampleJsonTreeOptions exampleTree False True Map.empty "Some exampleTree"
             "Returned True" "Map.empty(''tree.json'' \<mapsto> exampleCleanedTree)"]
       j parseTree_example_json n
  have "outputFileFormat exampleJsonTreeOptions = ''json''" by blast
  with c j n e parseTree_example_json show ?thesis by blast
qed

text \<open>
  The claim as stated fails: with the csv format asked for and a sub tree that cannot be
  had, \<open>parseTree\<close> returns \<open>false\<close> (gettask.js 784-787, 830-833) and the process is
  not ended.
\<close>

theorem tree_not_assembled_counterexample:
  "parseTree exampleCsvTreeOptions None False True noFiles = (Returned False, noFiles)"
  by (simp add: parseTree_def)

text \<open>
  Claim C8. In a run with the import-app option, the import of tasks is started only
  after \<open>importAppsFromFiles\<close> has returned the mapping from app counters to app ids:
  the task import is handed that mapping, what the run returns is what
  \<open>getTaskModelFromFile\<close> gives on it, and nothing but log entries follows the start of
  the task import.
\<close>

theorem app_import_finishes_before_task_import:
  assumes "importApp options"
    and "importTaskFromFile e options = (out, trace)"
    and "TaskImportStarted apps \<in> set trace"
  shows "\<exists>tagsExisting cpExisting tasksFromFile appsFromFile m rest.
           getTagsFromQseow e = Inr tagsExisting
         \<and> getCustomPropertiesFromQseow e = Inr cpExisting
         \<and> loadDefinitions e options = Inr (tasksFromFile, appsFromFile)
         \<and> importAppsFromFiles e appsFromFile tagsExisting cpExisting = Inr m
         \<and> apps = Some m
         \<and> trace = [AppImportStarted, AppImportFinished m, TaskImportStarted (Some m)] @ rest
         \<and> (\<forall>ev \<in> set rest. \<exists>c f. ev = Logged c f)
         \<and> out = (case getTaskModelFromFile e tasksFromFile tagsExisting cpExisting (Some m) of
                    Inl (ProcessExit code) \<Rightarrow> Exited code
                  | Inl err \<Rightarrow> Returned RUndefined
                  | Inr None \<Rightarrow> Returned RFalse
                  | Inr (Some taskList) \<Rightarrow> Returned (TaskList taskList))"
proof -
  obtain r tr where b: "importTaskFromFileBody e options = (r, tr)"
    by (cases "importTaskFromFileBody e options")
  from assms(2) b obtain rest where t: "trace = tr @ rest"
    and l: "\<forall>ev \<in> set rest. \<exists>c f. ev = Logged c f"
    and o: "out = (case r of Inl (ProcessExit code) \<Rightarrow> Exited code
                  | Inl err \<Rightarrow> Returned RUndefined | Inr v \<Rightarrow> Returned v)"
    unfolding importTaskFromFile_def catchLog_def
    by (auto split: sum.splits failure.splits)
  from assms(3) t l have "TaskImportStarted apps \<in> set tr" by auto
  from body_with_apps[OF assms(1) b this]
  obtain tagsExisting cpExisting tasksFromFile appsFromFile m
    where f: "getTagsFromQseow e = Inr tagsExisting"
      "getCustomPropertiesFromQseow e = Inr cpExisting"
      "loadDefinitions e options = Inr (tasksFromFile, appsFromFile)"
      "importAppsFromFiles e appsFromFile tagsExisting cpExisting = Inr m"
      "apps = Some m"
      "tr = [AppImportStarted, AppImportFinished m, TaskImportStarted (Some m)]"
    and r: "r = (case getTaskModelFromFile e tasksFromFile tagsExisting cpExisting (Some m) of
                  Inl err \<Rightarrow> Inl err
                | Inr None \<Rightarrow> Inr RFalse
                | Inr (Some taskList) \<Rightarrow> Inr (TaskList taskList))"
    by blast
  have "out = (case getTaskModelFromFile e tasksFromFile tagsExisting cpExisting (Some m) of
                    Inl (ProcessExit code) \<Rightarrow> Exited code
                  | Inl err \<Rightarrow> Returned RUndefined
                  | Inr None \<Rightarrow> Returned RFalse
                  | Inr (Some taskList) \<Rightarrow> Returned (TaskList taskList))"
    unfolding o r by (auto split: sum.splits option.splits failure.splits)
  with f t l show ?thesis by blast
qed

theorem app_import_finishes_before_task_import_witness:
  "importApp exampleExcelOptions
   \<and> importTaskFromFile exampleEnv exampleExcelOptions
       = (Returned (TaskList [''task-guid-1'']),
          [AppImportStarted, AppImportFinished [(1, ''app-guid-1'')],
           TaskImportStarted (Some [(1, ''app-guid-1'')])])
   \<and> loadDefinitions exampleEnv exampleExcelOptions
       = Inr (Some (exampleTaskSheet\<lparr>data := take 3 (data exampleTaskSheet)\<rparr>), Some exampleAppSheet)
   \<and> importAppsFromFiles exampleEnv (Some exampleAppSheet) [''tag1''] [] = Inr [(1, ''app-guid-1'')]
   \<and> Returned (TaskList [''task-guid-1''])
       = (case getTaskModelFromFile exampleEnv
                 (Some (exampleTaskSheet\<lparr>data := take 3 (data exampleTaskSheet)\<rparr>))
                 [''tag1''] [] (Some [(1, ''app-guid-1'')]) of
            Inl (ProcessExit code) \<Rightarrow> Exited code
          | Inl err \<Rightarrow> Returned RUndefined
          | Inr None \<Rightarrow> Returned RFalse
          | Inr (Some taskList) \<Rightarrow> Returned (TaskList taskList))"
proof -
  have a: "importApp exampleExcelOptions" by (simp add: exampleExcelOptions_def)
  have m: "TaskImportStarted (Some [(1, ''app-guid-1'')])
             \<in> set [AppImportStarted, AppImportFinished [(1, ''app-guid-1'')],
                    TaskImportStarted (Some [(1, ''app-guid-1'')])]" by simp
  from app_import_finishes_before_task_import[OF a import_example_excel m]
  obtain tagsExisting cpExisting tasksFromFile appsFromFile apps
    where t: "getTagsFromQseow exampleEnv = Inr tagsExisting"
      and c: "getCustomPropertiesFromQseow exampleEnv = Inr cpExisting"
      and l: "loadDefinitions exampleEnv exampleExcelOptions = Inr (tasksFromFile, appsFromFile)"
      and i: "importAppsFromFiles exampleEnv appsFromFile tagsExisting cpExisting = Inr apps"
      and s: "Some [(1, ''app-guid-1'')] = Some apps"
      and o: "Returned (TaskList [''task-guid-1''])
                = (case getTaskModelFromFile exampleEnv tasksFromFile tagsExisting cpExisting (Some apps) of
                     Inl (ProcessExit code) \<Rightarrow> Exited code
                   | Inl err \<Rightarrow> Returned RUndefined
                   | Inr None \<Rightarrow> Returned RFalse
                   | Inr (Some taskList) \<Rightarrow> Returned (TaskList taskList))"
    by blast
  from t have t': "tagsExisting = [''tag1'']" by (simp add: exampleEnv_sel)
  from c have c': "cpExisting = []" by (simp add: exampleEnv_sel)
  from l have l': "tasksFromFile = Some (exampleTaskSheet\<lparr>data := take 3 (data exampleTaskSheet)\<rparr>)"
    "appsFromFile = Some exampleAppSheet" by (simp_all add: load_example_excel)
  from s have s': "apps = [(1, ''app-guid-1'')]" by simp
  show ?thesis
    using a import_example_excel l i o unfolding t' c' l' s' by (intro conjI)
qed

text \<open>
  Claim C2. An Excel file without the requested sheet: the \<open>Error\<close> that
  \<open>importTaskFromFile\<close> throws is caught at the end of the function and logged. No app
  and no task is imported, and the function returns \<open>undefined\<close> to its caller; the
  process is not ended with an exit code, as it is for a missing file.
\<close>

theorem missing_sheet_returns_without_exit:
  "importTaskFromFile exampleEnv missingSheetOptions
     = (Returned RUndefined,
        [Logged ''IMPORT TASK 2'' (Thrown ''EXCEL IMPORT: Can't find sheet Missing in file tasks.xlsx'')])"
  by (simp add: importTaskFromFile_def importTaskFromFileBody_def catchLog_def load_missing exampleEnv_sel)

text \<open>
  Claim C6, as amended. For every delimited-text import source whose first line is not
  empty and holds the whole of the first record (no field of it runs over a line break),
  the header row is that first line: it is what \<open>getHeaders\<close> returns when every record
  of the file has as many fields as the first, and the first of the rows that
  \<open>processCsvFile\<close> returns. When a record has another number of fields, the reading
  ends with the error of csv-parse and there is no header row.
\<close>

theorem header_is_first_line_of_file:
  assumes "header \<noteq> []" and "\<forall>f \<in> set header. lineBreaks f = 0"
  shows "getHeaders (header # rest)
           = (if \<forall>l \<in> set rest. l = [] \<or> length l = length header then Inr [header]
              else Inl CsvError)
       \<and> (processCsvFile isNumeric toNumber options (header # rest) = Inr rows \<longrightarrow>
            (\<exists>dataRows. rows = map CStr header # dataRows))"
proof (intro conjI impI)
  show "getHeaders (header # rest)
          = (if \<forall>l \<in> set rest. l = [] \<or> length l = length header then Inr [header]
             else Inl CsvError)"
    by (rule getHeaders_first_line[OF assms])
next
  assume "processCsvFile isNumeric toNumber options (header # rest) = Inr rows"
  from processCsvFile_rows[OF assms this]
  show "\<exists>dataRows. rows = map CStr header # dataRows" by blast
qed

theorem header_is_first_line_of_file_witness:
  "exampleHeader \<noteq> []
   \<and> map lineBreaks exampleHeader = [0, 0, 0, 0, 0, 0]
   \<and> length exampleHeader = 6
   \<and> map length (tl exampleCsv) = [6, 0, 6, 6]
   \<and> getHeaders (exampleHeader # tl exampleCsv) = Inr [exampleHeader]
   \<and> processCsvFile digitsOnly integerToNumber exampleOptions (exampleHeader # tl exampleCsv)
        = Inr exampleRows
   \<and> (\<exists>dataRows. exampleRows = map CStr exampleHeader # dataRows)"
proof -
  note h = exampleHeader_on_first_line
  have s: "\<forall>l \<in> set (tl exampleCsv). l = [] \<or> length l = length exampleHeader"
    by code_simp
  have e: "exampleHeader # tl exampleCsv = exampleCsv" by (simp add: exampleCsv_def)
  have p: "processCsvFile digitsOnly integerToNumber exampleOptions (exampleHeader # tl exampleCsv)
             = Inr exampleRows"
    unfolding e by (rule processCsvFile_example)
  note t = header_is_first_line_of_file[OF h, of "tl exampleCsv" digitsOnly integerToNumber
      exampleOptions exampleRows]
  from t s have g: "getHeaders (exampleHeader # tl exampleCsv) = Inr [exampleHeader]" by simp
  from t p have d: "\<exists>dataRows. exampleRows = map CStr exampleHeader # dataRows" by blast
  have n: "length exampleHeader = 6" "map length (tl exampleCsv) = [6, 0, 6, 6]"
    by code_simp+
  from h(1) exampleHeader_lineBreaks n g p d show ?thesis by blast
qed

text \<open>
  The claim as stated fails: when an empty line precedes the header line, no record has
  \<open>info.lines\<close> 1, \<open>getHeaders\<close> returns no header row and \<open>processCsvFile\<close> throws.
\<close>

theorem header_after_empty_line_counterexample:
  "getHeaders ([] # exampleCsv) = Inr []
   \<and> processCsvFile digitsOnly integerToNumber exampleOptions ([] # exampleCsv) = Inl TypeError"
  by code_simp




end
